theory Spec2Isabelle
  imports Complex_Main
begin

section \<open>JavaScript values used by the simulation engine\<close>

text \<open>
  The engine (\<^verbatim>\<open>src/simulation/engine.js\<close>) computes with JavaScript numbers. A number
  is modelled as a finite real, one of the two infinities, or \<^verbatim>\<open>NaN\<close>. Division by zero,
  the arithmetic of the infinities and of \<^verbatim>\<open>NaN\<close>, and the conversion of \<^verbatim>\<open>undefined\<close> to
  \<^verbatim>\<open>NaN\<close> are modelled as the language defines them.

  In the calculators of electricity, water and emissions, in the flow list and in the
  comparison, finite arithmetic is exact real arithmetic: the rounding of IEEE-754
  doubles, overflow to infinity and the sign of zero are not part of the model there, and
  a statement that fixes a decimal value of theirs is made within a tolerance.
  \<^verbatim>\<open>calculateDistance\<close> is modelled in binary64 arithmetic, every operation rounded,
  because whether it returns a number at all depends on the rounding.
\<close>

datatype jsnum = Fin real | PosInf | NegInf | NaN

definition signed_inf :: "real \<Rightarrow> jsnum" where
  "signed_inf x = (if x = 0 then NaN else if 0 < x then PosInf else NegInf)"

fun js_neg :: "jsnum \<Rightarrow> jsnum" where
  "js_neg (Fin a) = Fin (- a)"
| "js_neg PosInf = NegInf"
| "js_neg NegInf = PosInf"
| "js_neg NaN = NaN"

fun js_add :: "jsnum \<Rightarrow> jsnum \<Rightarrow> jsnum" where
  "js_add (Fin a) (Fin b) = Fin (a + b)"
| "js_add NaN _ = NaN"
| "js_add _ NaN = NaN"
| "js_add PosInf NegInf = NaN"
| "js_add NegInf PosInf = NaN"
| "js_add PosInf _ = PosInf"
| "js_add NegInf _ = NegInf"
| "js_add (Fin a) PosInf = PosInf"
| "js_add (Fin a) NegInf = NegInf"

definition js_sub :: "jsnum \<Rightarrow> jsnum \<Rightarrow> jsnum" where
  "js_sub a b = js_add a (js_neg b)"

fun js_mul :: "jsnum \<Rightarrow> jsnum \<Rightarrow> jsnum" where
  "js_mul (Fin a) (Fin b) = Fin (a * b)"
| "js_mul NaN _ = NaN"
| "js_mul _ NaN = NaN"
| "js_mul (Fin a) PosInf = signed_inf a"
| "js_mul (Fin a) NegInf = signed_inf (- a)"
| "js_mul PosInf (Fin b) = signed_inf b"
| "js_mul NegInf (Fin b) = signed_inf (- b)"
| "js_mul PosInf PosInf = PosInf"
| "js_mul PosInf NegInf = NegInf"
| "js_mul NegInf PosInf = NegInf"
| "js_mul NegInf NegInf = PosInf"

text \<open>
  Division: a finite number divided by zero is an infinity of the sign of the dividend,
  and \<^verbatim>\<open>0 / 0\<close> is \<^verbatim>\<open>NaN\<close> (the zero divisor is taken as \<^verbatim>\<open>+0\<close>).
\<close>

fun js_div :: "jsnum \<Rightarrow> jsnum \<Rightarrow> jsnum" where
  "js_div (Fin a) (Fin b) = (if b = 0 then signed_inf a else Fin (a / b))"
| "js_div NaN _ = NaN"
| "js_div _ NaN = NaN"
| "js_div (Fin a) PosInf = Fin 0"
| "js_div (Fin a) NegInf = Fin 0"
| "js_div PosInf (Fin b) = (if 0 \<le> b then PosInf else NegInf)"
| "js_div NegInf (Fin b) = (if 0 \<le> b then NegInf else PosInf)"
| "js_div PosInf _ = NaN"
| "js_div NegInf _ = NaN"

text \<open>\<^verbatim>\<open>a > b\<close>: false as soon as one side is \<^verbatim>\<open>NaN\<close>.\<close>

fun js_gt :: "jsnum \<Rightarrow> jsnum \<Rightarrow> bool" where
  "js_gt (Fin a) (Fin b) = (b < a)"
| "js_gt NaN _ = False"
| "js_gt _ NaN = False"
| "js_gt PosInf PosInf = False"
| "js_gt PosInf _ = True"
| "js_gt NegInf _ = False"
| "js_gt (Fin a) PosInf = False"
| "js_gt (Fin a) NegInf = True"

text \<open>\<^verbatim>\<open>Math.min(a, b)\<close>: \<^verbatim>\<open>NaN\<close> as soon as one argument is \<^verbatim>\<open>NaN\<close>.\<close>

fun js_min :: "jsnum \<Rightarrow> jsnum \<Rightarrow> jsnum" where
  "js_min (Fin a) (Fin b) = Fin (min a b)"
| "js_min NaN _ = NaN"
| "js_min _ NaN = NaN"
| "js_min NegInf _ = NegInf"
| "js_min _ NegInf = NegInf"
| "js_min PosInf b = b"
| "js_min a PosInf = a"

text \<open>\<^verbatim>\<open>Math.round(x)\<close>: the integer nearest to \<^verbatim>\<open>x\<close>, halves rounded up.\<close>

fun js_round :: "jsnum \<Rightarrow> jsnum" where
  "js_round (Fin a) = Fin (of_int \<lfloor>a + 1 / 2\<rfloor>)"
| "js_round x = x"

subsection \<open>Binary64 arithmetic\<close>

text \<open>
  \<open>rnd64 x\<close> is the double nearest to the real \<open>x\<close>, a tie going to the even
  significand: \<open>x\<close> is divided by its unit in the last place, \<open>2 powi (e - 52)\<close> for
  \<open>2 powi e \<le> \<bar>x\<bar> < 2 powi (e + 1)\<close>, and rounded to an integer. The exponent is not
  bounded: overflow to infinity and the subnormal numbers are not part of the model.
\<close>

definition round_even :: "real \<Rightarrow> int" where
  "round_even y =
     (let n = \<lfloor>y\<rfloor>; r = y - of_int n
      in if r < 1 / 2 then n else if 1 / 2 < r then n + 1 else if even n then n else n + 1)"

definition rnd64 :: "real \<Rightarrow> real" where
  "rnd64 x =
     (if x = 0 then 0
      else (let e = \<lfloor>log 2 \<bar>x\<bar>\<rfloor>; ulp = 2 powi (e - 52)
            in of_int (round_even (x / ulp)) * ulp))"

text \<open>The operators \<^verbatim>\<open>+\<close>, \<^verbatim>\<open>-\<close>, \<^verbatim>\<open>*\<close> and \<^verbatim>\<open>/\<close> on doubles round the exact result.\<close>

definition double_add :: "real \<Rightarrow> real \<Rightarrow> real" where
  "double_add x y = rnd64 (x + y)"

definition double_sub :: "real \<Rightarrow> real \<Rightarrow> real" where
  "double_sub x y = rnd64 (x - y)"

definition double_mul :: "real \<Rightarrow> real \<Rightarrow> real" where
  "double_mul x y = rnd64 (x * y)"

definition double_div :: "real \<Rightarrow> real \<Rightarrow> real" where
  "double_div x y = rnd64 (x / y)"

text \<open>
  \<^verbatim>\<open>Math.PI\<close> is the double nearest to \<open>pi\<close>. \<^verbatim>\<open>Math.sqrt\<close> is correctly rounded by
  IEEE-754 and is \<^verbatim>\<open>NaN\<close> (here \<open>None\<close>) below zero. \<^verbatim>\<open>Math.sin\<close>, \<^verbatim>\<open>Math.cos\<close> and
  \<^verbatim>\<open>Math.atan2\<close>, whose accuracy the language leaves to the implementation, are taken
  as correctly rounded as well.
\<close>

definition Math_PI :: real where
  "Math_PI = rnd64 pi"

definition Math_sin :: "real \<Rightarrow> real" where
  "Math_sin x = rnd64 (sin x)"

definition Math_cos :: "real \<Rightarrow> real" where
  "Math_cos x = rnd64 (cos x)"

definition js_sqrt :: "real \<Rightarrow> real option" where
  "js_sqrt x = (if x < 0 then None else Some (rnd64 (sqrt x)))"

text \<open>\<^verbatim>\<open>Math.atan2(y, x)\<close> on finite numbers: the angle of the point \<open>(x, y)\<close>, rounded.\<close>

definition atan2 :: "real \<Rightarrow> real \<Rightarrow> real" where
  "atan2 y x =
     (if 0 < x then arctan (y / x)
      else if x < 0 then (if 0 \<le> y then arctan (y / x) + pi else arctan (y / x) - pi)
      else if 0 < y then pi / 2
      else if y < 0 then - (pi / 2)
      else 0)"

definition Math_atan2 :: "real \<Rightarrow> real \<Rightarrow> real" where
  "Math_atan2 y x = rnd64 (atan2 y x)"

text \<open>
  Reading an element of an array or a property of an object can give \<^verbatim>\<open>undefined\<close>
  (\<open>None\<close>); in arithmetic \<^verbatim>\<open>undefined\<close> converts to \<^verbatim>\<open>NaN\<close>.
\<close>

definition tonum :: "real option \<Rightarrow> jsnum" where
  "tonum v = (case v of None \<Rightarrow> NaN | Some x \<Rightarrow> Fin x)"

definition nth_opt :: "'a list \<Rightarrow> int \<Rightarrow> 'a option" where
  "nth_opt xs i = (if 0 \<le> i \<and> i < int (length xs) then Some (xs ! nat i) else None)"

text \<open>
  An object literal used as a lookup table keeps its keys in insertion order
  (\<^verbatim>\<open>Object.values\<close>, \<^verbatim>\<open>Object.entries\<close>), so a table is an association list.
  \<^verbatim>\<open>TABLE[key]\<close> gives the entry of an own key, the property inherited from
  \<^verbatim>\<open>Object.prototype\<close> for one of its names, and \<^verbatim>\<open>undefined\<close> otherwise.
  The engine's selections start as \<^verbatim>\<open>null\<close>.
\<close>

type_synonym 'a table = "(string \<times> 'a) list"

datatype 'a jsval = Null | Undefined | Obj 'a | Inherited string

definition object_prototype_names :: "string list" where
  "object_prototype_names =
     [''constructor'', ''__defineGetter__'', ''__defineSetter__'', ''hasOwnProperty'',
      ''__lookupGetter__'', ''__lookupSetter__'', ''isPrototypeOf'',
      ''propertyIsEnumerable'', ''toString'', ''valueOf'', ''__proto__'',
      ''toLocaleString'']"

definition lookup :: "'a table \<Rightarrow> string \<Rightarrow> 'a jsval" where
  "lookup tbl k =
     (case map_of tbl k of
        Some v \<Rightarrow> Obj v
      | None \<Rightarrow> if k \<in> set object_prototype_names then Inherited k else Undefined)"

text \<open>Truthiness: \<^verbatim>\<open>null\<close> and \<^verbatim>\<open>undefined\<close> are falsy, every object and function is truthy.\<close>

fun truthy :: "'a jsval \<Rightarrow> bool" where
  "truthy Null = False"
| "truthy Undefined = False"
| "truthy (Obj _) = True"
| "truthy (Inherited _) = True"

text \<open>The exceptions the engine can raise: its own \<^verbatim>\<open>new Error(message)\<close>, and the
  \<^verbatim>\<open>TypeError\<close> of reading a property of \<^verbatim>\<open>null\<close> or \<^verbatim>\<open>undefined\<close>.\<close>

datatype js_error = Error string | TypeError


section \<open>The reference dataset\<close>

text \<open>
  The records of \<^verbatim>\<open>src/data/models.js\<close>. A field keeps the name of its property; where
  two kinds of record have a property of the same name (\<^verbatim>\<open>id\<close>, \<^verbatim>\<open>name\<close>, \<^verbatim>\<open>coords\<close>,
  \<^verbatim>\<open>source\<close>, ...) the field carries the record's prefix. Properties that the engine never
  reads and that hold display text or pictographs (\<^verbatim>\<open>flag\<close>, \<^verbatim>\<open>icon\<close>, \<^verbatim>\<open>context\<close>,
  \<^verbatim>\<open>description\<close>, \<^verbatim>\<open>scaling\<close>, \<^verbatim>\<open>use\<close>, \<^verbatim>\<open>laborIssue\<close>, \<^verbatim>\<open>healthImpact\<close>, and
  \<^verbatim>\<open>perSession.resolution\<close>) are left out. A numeric literal is a finite real.
\<close>

record coords =
  lat :: real
  lng :: real

record city =
  city_id :: string
  city_name :: string
  country :: string
  city_coords :: coords
  population :: real
  defaultDatacenter :: string

record power_source =
  src_name :: string
  src_coords :: coords
  src_type :: string

record energy_profile =
  gridMix :: "real table"
  pue :: real
  carbonIntensity :: real
  sources :: "power_source list"

record water_profile =
  water_source :: string
  sourceCoords :: coords
  stressLevel :: string
  wue :: real
  aquiferDepletion :: real
  annualWithdrawal :: real

record climate_profile =
  avgTemp :: real
  coolingDays :: real
  heatPenalty :: real

record datacenter =
  dc_id :: string
  dc_name :: string
  location :: string
  dc_coords :: coords
  operator :: string
  energy :: energy_profile
  water :: water_profile
  climate :: climate_profile

text \<open>
  \<^verbatim>\<open>perSession\<close> has different properties for each kind of workload, so it is a table
  from property name to number; a property that is absent reads as \<^verbatim>\<open>undefined\<close>.
\<close>

record workload =
  wl_id :: string
  wl_name :: string
  wl_intensity :: string
  perSession :: "real table"

record material =
  mat_name :: string
  mat_source :: string
  mat_sourceCoords :: coords
  annualDemandTons :: real

record ewaste_site =
  ew_name :: string
  ew_coords :: coords
  annualTons :: real

record drift_destination =
  dest_name :: string
  dest_coords :: coords

record emissions_drift =
  direction :: string
  destinations :: "drift_destination list"
  driftDistanceKm :: real

definition CITIES :: "city table" where
  "CITIES =
    [(''barcelona'', \<lparr>city_id = ''barcelona'', city_name = ''Barcelona'', country = ''Spain'',
        city_coords = \<lparr>lat = 41.3851, lng = 2.1734\<rparr>, population = 1620000,
        defaultDatacenter = ''ireland''\<rparr>),
     (''lagos'', \<lparr>city_id = ''lagos'', city_name = ''Lagos'', country = ''Nigeria'',
        city_coords = \<lparr>lat = 6.5244, lng = 3.3792\<rparr>, population = 15400000,
        defaultDatacenter = ''singapore''\<rparr>),
     (''phoenix'', \<lparr>city_id = ''phoenix'', city_name = ''Phoenix'', country = ''USA'',
        city_coords = \<lparr>lat = 33.4484, lng = - 112.0740\<rparr>, population = 1680000,
        defaultDatacenter = ''arizona''\<rparr>),
     (''dublin'', \<lparr>city_id = ''dublin'', city_name = ''Dublin'', country = ''Ireland'',
        city_coords = \<lparr>lat = 53.3498, lng = - 6.2603\<rparr>, population = 544000,
        defaultDatacenter = ''ireland''\<rparr>)]"

definition arizona :: datacenter where
  "arizona =
    \<lparr>dc_id = ''arizona'', dc_name = ''Arizona Hyperscale'', location = ''Phoenix, Arizona'',
     dc_coords = \<lparr>lat = 33.3942, lng = - 111.9261\<rparr>, operator = ''Generic Cloud Provider'',
     energy = \<lparr>gridMix = [(''natural_gas'', 0.35), (''coal'', 0.10), (''nuclear'', 0.28),
                           (''solar'', 0.15), (''wind'', 0.07), (''hydro'', 0.05)],
               pue = 1.25, carbonIntensity = 385,
               sources =
                 [\<lparr>src_name = ''Palo Verde Nuclear'',
                   src_coords = \<lparr>lat = 33.3886, lng = - 112.8615\<rparr>, src_type = ''nuclear''\<rparr>,
                  \<lparr>src_name = ''Gila River Gas Plant'',
                   src_coords = \<lparr>lat = 33.0589, lng = - 112.6854\<rparr>, src_type = ''gas''\<rparr>,
                  \<lparr>src_name = ''Solana Solar'',
                   src_coords = \<lparr>lat = 32.9297, lng = - 112.9798\<rparr>, src_type = ''solar''\<rparr>]\<rparr>,
     water = \<lparr>water_source = ''Colorado River Basin / Central Arizona Project'',
              sourceCoords = \<lparr>lat = 36.0161, lng = - 114.7377\<rparr>, stressLevel = ''extreme'',
              wue = 1.8, aquiferDepletion = 0.42, annualWithdrawal = 2500000000\<rparr>,
     climate = \<lparr>avgTemp = 35, coolingDays = 280, heatPenalty = 1.4\<rparr>\<rparr>"

definition finland :: datacenter where
  "finland =
    \<lparr>dc_id = ''finland'', dc_name = ''Nordic Green DC'', location = ''Hamina, Finland'',
     dc_coords = \<lparr>lat = 60.5693, lng = 27.1878\<rparr>, operator = ''Generic Cloud Provider'',
     energy = \<lparr>gridMix = [(''nuclear'', 0.33), (''hydro'', 0.22), (''wind'', 0.15),
                           (''biomass'', 0.12), (''natural_gas'', 0.10), (''coal'', 0.05),
                           (''peat'', 0.03)],
               pue = 1.10, carbonIntensity = 120,
               sources =
                 [\<lparr>src_name = ''Olkiluoto Nuclear'',
                   src_coords = \<lparr>lat = 61.2354, lng = 21.4424\<rparr>, src_type = ''nuclear''\<rparr>,
                  \<lparr>src_name = ''Baltic Wind Farm'',
                   src_coords = \<lparr>lat = 60.1699, lng = 24.9384\<rparr>, src_type = ''wind''\<rparr>]\<rparr>,
     water = \<lparr>water_source = ''Baltic Sea (seawater cooling)'',
              sourceCoords = \<lparr>lat = 60.4, lng = 27.0\<rparr>, stressLevel = ''low'',
              wue = 0.0, aquiferDepletion = 0.0, annualWithdrawal = 0\<rparr>,
     climate = \<lparr>avgTemp = 5, coolingDays = 45, heatPenalty = 0.85\<rparr>\<rparr>"

definition singapore :: datacenter where
  "singapore =
    \<lparr>dc_id = ''singapore'', dc_name = ''Equinix SG Hub'', location = ''Singapore'',
     dc_coords = \<lparr>lat = 1.3521, lng = 103.8198\<rparr>, operator = ''Equinix'',
     energy = \<lparr>gridMix = [(''natural_gas'', 0.95), (''solar'', 0.03), (''other'', 0.02)],
               pue = 1.55, carbonIntensity = 420,
               sources =
                 [\<lparr>src_name = ''Jurong Island Gas Plants'',
                   src_coords = \<lparr>lat = 1.2653, lng = 103.6990\<rparr>, src_type = ''gas''\<rparr>,
                  \<lparr>src_name = ''Sembcorp LNG'',
                   src_coords = \<lparr>lat = 1.2456, lng = 103.7105\<rparr>, src_type = ''lng''\<rparr>]\<rparr>,
     water = \<lparr>water_source = ''NEWater (recycled) + Imported from Malaysia'',
              sourceCoords = \<lparr>lat = 1.4472, lng = 103.7867\<rparr>, stressLevel = ''high'',
              wue = 2.2, aquiferDepletion = 0.0, annualWithdrawal = 1800000000\<rparr>,
     climate = \<lparr>avgTemp = 31, coolingDays = 365, heatPenalty = 1.55\<rparr>\<rparr>"

definition ireland :: datacenter where
  "ireland =
    \<lparr>dc_id = ''ireland'', dc_name = ''Dublin Cloud Campus'', location = ''Dublin, Ireland'',
     dc_coords = \<lparr>lat = 53.4055, lng = - 6.3725\<rparr>, operator = ''Generic Cloud Provider'',
     energy = \<lparr>gridMix = [(''wind'', 0.35), (''natural_gas'', 0.48), (''coal'', 0.06),
                           (''hydro'', 0.03), (''peat'', 0.05), (''solar'', 0.03)],
               pue = 1.15, carbonIntensity = 295,
               sources =
                 [\<lparr>src_name = ''Arklow Wind Farm'',
                   src_coords = \<lparr>lat = 52.7945, lng = - 6.0051\<rparr>, src_type = ''wind''\<rparr>,
                  \<lparr>src_name = ''Dublin Bay Gas'',
                   src_coords = \<lparr>lat = 53.3331, lng = - 6.1245\<rparr>, src_type = ''gas''\<rparr>]\<rparr>,
     water = \<lparr>water_source = ''River Liffey / Bohernabreena Reservoir'',
              sourceCoords = \<lparr>lat = 53.2452, lng = - 6.3658\<rparr>, stressLevel = ''moderate'',
              wue = 0.8, aquiferDepletion = 0.15, annualWithdrawal = 450000000\<rparr>,
     climate = \<lparr>avgTemp = 10, coolingDays = 90, heatPenalty = 1.0\<rparr>\<rparr>"

definition DATACENTERS :: "datacenter table" where
  "DATACENTERS =
    [(''arizona'', arizona), (''finland'', finland), (''singapore'', singapore),
     (''ireland'', ireland)]"

definition chatbot :: workload where
  "chatbot =
    \<lparr>wl_id = ''chatbot'', wl_name = ''AI Chatbot'', wl_intensity = ''low'',
     perSession = [(''queries'', 25), (''tokensPerQuery'', 500), (''kwhPerQuery'', 0.0029),
                   (''durationMinutes'', 15)]\<rparr>"

text \<open>\<^verbatim>\<open>WORKLOADS.image\<close>; the name \<open>image\<close> is taken in HOL.\<close>

definition image_workload :: workload where
  "image_workload =
    \<lparr>wl_id = ''image'', wl_name = ''Image Generator'', wl_intensity = ''high'',
     perSession = [(''images'', 10), (''stepsPerImage'', 50), (''kwhPerImage'', 0.029),
                   (''durationMinutes'', 20)]\<rparr>"

definition traffic :: workload where
  "traffic =
    \<lparr>wl_id = ''traffic'', wl_name = ''Traffic AI'', wl_intensity = ''medium'',
     perSession = [(''sensors'', 500), (''predictionsPerHour'', 12000), (''kwhPerHour'', 2.5),
                   (''durationMinutes'', 60)]\<rparr>"

definition biometric :: workload where
  "biometric =
    \<lparr>wl_id = ''biometric'', wl_name = ''Biometric Security'', wl_intensity = ''continuous'',
     perSession = [(''cameras'', 100), (''facesPerMinute'', 1000), (''kwhPerHour'', 8.5),
                   (''durationMinutes'', 60)]\<rparr>"

definition WORKLOADS :: "workload table" where
  "WORKLOADS =
    [(''chatbot'', chatbot), (''image'', image_workload), (''traffic'', traffic),
     (''biometric'', biometric)]"

definition MATERIALS :: "material table" where
  "MATERIALS =
    [(''cobalt'', \<lparr>mat_name = ''Cobalt'', mat_source = ''Democratic Republic of Congo'',
        mat_sourceCoords = \<lparr>lat = - 10.4167, lng = 25.9167\<rparr>, annualDemandTons = 175000\<rparr>),
     (''lithium'', \<lparr>mat_name = ''Lithium'', mat_source = ''Chile / Argentina / Australia'',
        mat_sourceCoords = \<lparr>lat = - 23.8634, lng = - 67.4511\<rparr>, annualDemandTons = 130000\<rparr>),
     (''rareEarth'', \<lparr>mat_name = ''Rare Earth Elements'', mat_source = ''China (Bayan Obo)'',
        mat_sourceCoords = \<lparr>lat = 41.8000, lng = 109.9667\<rparr>, annualDemandTons = 240000\<rparr>),
     (''silicon'', \<lparr>mat_name = ''Silicon'', mat_source = ''China (Xinjiang)'',
        mat_sourceCoords = \<lparr>lat = 41.7685, lng = 86.1471\<rparr>, annualDemandTons = 8000000\<rparr>),
     (''copper'', \<lparr>mat_name = ''Copper'', mat_source = ''Chile / Peru'',
        mat_sourceCoords = \<lparr>lat = - 22.4585, lng = - 68.9291\<rparr>, annualDemandTons = 25000000\<rparr>)]"

definition EWASTE :: "ewaste_site table" where
  "EWASTE =
    [(''ghana'', \<lparr>ew_name = ''Agbogbloshie, Ghana'',
        ew_coords = \<lparr>lat = 5.5500, lng = - 0.2167\<rparr>, annualTons = 250000\<rparr>),
     (''india'', \<lparr>ew_name = ''Seelampur, Delhi'',
        ew_coords = \<lparr>lat = 28.6842, lng = 77.2656\<rparr>, annualTons = 95000\<rparr>),
     (''china'', \<lparr>ew_name = ''Guiyu, China'',
        ew_coords = \<lparr>lat = 23.2958, lng = 116.3536\<rparr>, annualTons = 150000\<rparr>),
     (''pakistan'', \<lparr>ew_name = ''Karachi'',
        ew_coords = \<lparr>lat = 24.8607, lng = 67.0011\<rparr>, annualTons = 45000\<rparr>)]"

definition EMISSIONS_DRIFT :: "emissions_drift table" where
  "EMISSIONS_DRIFT =
    [(''arizona'', \<lparr>direction = ''west-northwest'',
        destinations =
          [\<lparr>dest_name = ''California'', dest_coords = \<lparr>lat = 36.7783, lng = - 119.4179\<rparr>\<rparr>,
           \<lparr>dest_name = ''Pacific Ocean'', dest_coords = \<lparr>lat = 32.0, lng = - 130.0\<rparr>\<rparr>],
        driftDistanceKm = 2400\<rparr>),
     (''finland'', \<lparr>direction = ''east'',
        destinations =
          [\<lparr>dest_name = ''Russia'', dest_coords = \<lparr>lat = 61.5240, lng = 105.3188\<rparr>\<rparr>,
           \<lparr>dest_name = ''Arctic'', dest_coords = \<lparr>lat = 70.0, lng = 30.0\<rparr>\<rparr>],
        driftDistanceKm = 3200\<rparr>),
     (''singapore'', \<lparr>direction = ''north'',
        destinations =
          [\<lparr>dest_name = ''South China Sea'', dest_coords = \<lparr>lat = 15.0, lng = 110.0\<rparr>\<rparr>,
           \<lparr>dest_name = ''Vietnam Coast'', dest_coords = \<lparr>lat = 16.0544, lng = 108.2022\<rparr>\<rparr>],
        driftDistanceKm = 1800\<rparr>),
     (''ireland'', \<lparr>direction = ''east'',
        destinations =
          [\<lparr>dest_name = ''United Kingdom'', dest_coords = \<lparr>lat = 54.7024, lng = - 3.2766\<rparr>\<rparr>,
           \<lparr>dest_name = ''North Sea'', dest_coords = \<lparr>lat = 56.0, lng = 3.0\<rparr>\<rparr>],
        driftDistanceKm = 1200\<rparr>)]"

text \<open>\<^verbatim>\<open>TIME_MODIFIERS\<close>: three sequences indexed by the hour of the day.\<close>

definition waterUsageByHour :: "real list" where
  "waterUsageByHour =
    [0.6, 0.5, 0.5, 0.5, 0.5, 0.6,
     0.7, 0.8, 0.9, 1.0, 1.1, 1.2,
     1.3, 1.4, 1.5, 1.5, 1.4, 1.3,
     1.1, 1.0, 0.9, 0.8, 0.7, 0.6]"

definition carbonIntensityByHour :: "real list" where
  "carbonIntensityByHour =
    [1.1, 1.1, 1.1, 1.1, 1.05, 1.0,
     0.95, 0.9, 0.85, 0.8, 0.75, 0.7,
     0.7, 0.7, 0.75, 0.8, 0.85, 0.9,
     0.95, 1.0, 1.05, 1.1, 1.1, 1.1]"

definition demandByHour :: "real list" where
  "demandByHour =
    [0.7, 0.65, 0.6, 0.6, 0.65, 0.7,
     0.8, 0.9, 1.0, 1.1, 1.15, 1.2,
     1.15, 1.1, 1.15, 1.2, 1.25, 1.2,
     1.1, 1.0, 0.9, 0.85, 0.8, 0.75]"


section \<open>The simulation engine\<close>

text \<open>
  The state of \<^verbatim>\<open>class SimulationEngine\<close>: three selections, each \<^verbatim>\<open>null\<close>, \<^verbatim>\<open>undefined\<close>
  or the result of a table lookup, and the hour. The hour is an integer: the engine
  stores whatever it is given.
\<close>

record engine =
  currentCity :: "city jsval"
  currentWorkload :: "workload jsval"
  currentDatacenter :: "datacenter jsval"
  currentHour :: int

definition constructor :: engine where
  "constructor =
     \<lparr>currentCity = Null, currentWorkload = Null, currentDatacenter = Null, currentHour = 14\<rparr>"

text \<open>
  The argument of \<^verbatim>\<open>configure({ city, workload, datacenter, hour })\<close>: each key may be
  absent (\<open>None\<close>). An identifier is a string; the empty string is falsy.
\<close>

record config_args =
  arg_city :: "string option"
  arg_workload :: "string option"
  arg_datacenter :: "string option"
  arg_hour :: "int option"

definition configure :: "config_args \<Rightarrow> engine \<Rightarrow> engine" where
  "configure a s =
     (let s = (case arg_city a of
                 Some k \<Rightarrow> if k \<noteq> [] then s\<lparr>currentCity := lookup CITIES k\<rparr> else s
               | None \<Rightarrow> s);
          s = (case arg_workload a of
                 Some k \<Rightarrow> if k \<noteq> [] then s\<lparr>currentWorkload := lookup WORKLOADS k\<rparr> else s
               | None \<Rightarrow> s);
          s = (case arg_datacenter a of
                 Some k \<Rightarrow> if k \<noteq> [] then s\<lparr>currentDatacenter := lookup DATACENTERS k\<rparr> else s
               | None \<Rightarrow> s);
          s = (case arg_hour a of Some h \<Rightarrow> s\<lparr>currentHour := h\<rparr> | None \<Rightarrow> s)
      in s)"

subsection \<open>Distance\<close>

definition toRad :: "real \<Rightarrow> real" where
  "toRad deg = double_mul deg (double_div Math_PI 180)"

text \<open>
  \<^verbatim>\<open>calculateDistance\<close>: the haversine formula, in binary64. A coordinate of the tables
  is a decimal literal, which the program holds as the nearest double. The operators
  associate to the left, so \<^verbatim>\<open>a\<close> is the sum of the product of the two sines of the
  latitudes and of the product \<^verbatim>\<open>((cos * cos) * sin) * sin\<close>. Nothing bounds \<^verbatim>\<open>a\<close> by 1:
  when it is rounded above 1, \<^verbatim>\<open>1 - a\<close> is negative, its square root is \<^verbatim>\<open>NaN\<close>, and so
  is the result.
\<close>

definition calculateDistance :: "coords \<Rightarrow> coords \<Rightarrow> jsnum" where
  "calculateDistance coord1 coord2 =
     (let R = 6371;
          lat1 = rnd64 (lat coord1); lng1 = rnd64 (lng coord1);
          lat2 = rnd64 (lat coord2); lng2 = rnd64 (lng coord2);
          dLat = toRad (double_sub lat2 lat1);
          dLng = toRad (double_sub lng2 lng1);
          a = double_add
                (double_mul (Math_sin (double_div dLat 2)) (Math_sin (double_div dLat 2)))
                (double_mul
                   (double_mul (double_mul (Math_cos (toRad lat1)) (Math_cos (toRad lat2)))
                      (Math_sin (double_div dLng 2)))
                   (Math_sin (double_div dLng 2)))
      in case (js_sqrt a, js_sqrt (double_sub 1 a)) of
           (Some u, Some v) \<Rightarrow> Fin (double_mul R (double_mul 2 (Math_atan2 u v)))
         | _ \<Rightarrow> NaN)"

subsection \<open>Electricity\<close>

record electricity_result =
  baseKwh :: jsnum
  withOverhead :: jsnum
  el_pue :: real
  el_heatPenalty :: real
  el_gridMix :: "real table"
  fossilPercent :: real
  el_sources :: "power_source list"

text \<open>
  \<^verbatim>\<open>calculateFossilPercent\<close>: the loop over the four fossil sources adds a share when it
  is present and truthy (not zero).
\<close>

definition fossilSources :: "string list" where
  "fossilSources = [''natural_gas'', ''coal'', ''peat'', ''oil'']"

definition calculateFossilPercent :: "real table \<Rightarrow> real" where
  "calculateFossilPercent gm =
     foldl (\<lambda>fossilTotal source.
              case map_of gm source of
                Some v \<Rightarrow> if v \<noteq> 0 then fossilTotal + v else fossilTotal
              | None \<Rightarrow> fossilTotal)
       0 fossilSources * 100"

text \<open>
  The \<^verbatim>\<open>switch (workload.id)\<close>. A value inherited from \<^verbatim>\<open>Object.prototype\<close> has no
  \<^verbatim>\<open>id\<close>, so no case matches and \<^verbatim>\<open>baseKwh\<close> stays 0. A property of \<^verbatim>\<open>perSession\<close>
  that is absent reads as \<^verbatim>\<open>NaN\<close>, the value it takes in the products that follow.
\<close>

definition session_field :: "workload \<Rightarrow> string \<Rightarrow> jsnum" where
  "session_field w f = tonum (map_of (perSession w) f)"

definition switch_baseKwh :: "workload jsval \<Rightarrow> jsnum" where
  "switch_baseKwh wv =
     (case wv of
        Obj w \<Rightarrow>
          if wl_id w = ''chatbot'' then js_mul (session_field w ''queries'') (session_field w ''kwhPerQuery'')
          else if wl_id w = ''image'' then js_mul (session_field w ''images'') (session_field w ''kwhPerImage'')
          else if wl_id w = ''traffic'' then session_field w ''kwhPerHour''
          else if wl_id w = ''biometric'' then session_field w ''kwhPerHour''
          else Fin 0
      | _ \<Rightarrow> Fin 0)"

text \<open>
  \<^verbatim>\<open>calculateElectricity\<close>: \<^verbatim>\<open>null\<close> (\<open>Inr None\<close>) when the workload or the datacenter is
  falsy; a \<^verbatim>\<open>TypeError\<close> when the datacenter is an inherited value, which has no
  \<^verbatim>\<open>energy\<close>.
\<close>

definition calculateElectricity :: "engine \<Rightarrow> js_error + electricity_result option" where
  "calculateElectricity s =
     (if \<not> truthy (currentWorkload s) \<or> \<not> truthy (currentDatacenter s) then Inr None
      else case currentDatacenter s of
        Obj dc \<Rightarrow>
          (let hourModifier = tonum (nth_opt demandByHour (currentHour s));
               base = switch_baseKwh (currentWorkload s);
               withPue = js_mul base (Fin (pue (energy dc)));
               withHeat = js_mul withPue (Fin (heatPenalty (climate dc)));
               final = js_mul withHeat hourModifier
           in Inr (Some \<lparr>baseKwh = base, withOverhead = final, el_pue = pue (energy dc),
                         el_heatPenalty = heatPenalty (climate dc),
                         el_gridMix = gridMix (energy dc),
                         fossilPercent = calculateFossilPercent (gridMix (energy dc)),
                         el_sources = sources (energy dc)\<rparr>))
      | _ \<Rightarrow> Inl TypeError)"

subsection \<open>Water\<close>

record water_result =
  liters :: jsnum
  wr_wue :: real
  wr_source :: string
  wr_sourceCoords :: coords
  wr_stressLevel :: string
  wr_aquiferDepletion :: real
  hourModifier :: "real option"
  litersPerSecond :: real

definition calculateWater :: "engine \<Rightarrow> js_error + water_result option" where
  "calculateWater s =
     (if \<not> truthy (currentDatacenter s) \<or> \<not> truthy (currentWorkload s) then Inr None
      else case calculateElectricity s of
        Inl e \<Rightarrow> Inl e
      | Inr None \<Rightarrow> Inr None
      | Inr (Some electricity) \<Rightarrow>
          (case currentDatacenter s of
             Obj dc \<Rightarrow>
               (let hm = nth_opt waterUsageByHour (currentHour s);
                    baseLiters = js_mul (withOverhead electricity) (Fin (wue (water dc)));
                    withTimeModifier = js_mul baseLiters (tonum hm)
                in Inr (Some \<lparr>liters = withTimeModifier, wr_wue = wue (water dc),
                              wr_source = water_source (water dc),
                              wr_sourceCoords = sourceCoords (water dc),
                              wr_stressLevel = stressLevel (water dc),
                              wr_aquiferDepletion = aquiferDepletion (water dc),
                              hourModifier = hm,
                              litersPerSecond = annualWithdrawal (water dc) / (365 * 24 * 3600)\<rparr>))
           | _ \<Rightarrow> Inl TypeError))"

subsection \<open>Emissions\<close>

record emissions_result =
  grams :: jsnum
  em_carbonIntensity :: jsnum
  baseCarbonIntensity :: real
  drift :: "emissions_drift jsval"
  annualTonsCO2 :: jsnum

text \<open>
  \<^verbatim>\<open>calculateEmissions\<close> tests the datacenter only. It then reads
  \<^verbatim>\<open>electricity.withOverhead\<close> without testing \<^verbatim>\<open>electricity\<close>, which is \<^verbatim>\<open>null\<close> when the
  workload is falsy: that read raises a \<^verbatim>\<open>TypeError\<close>.
\<close>

definition calculateEmissions :: "engine \<Rightarrow> js_error + emissions_result option" where
  "calculateEmissions s =
     (if \<not> truthy (currentDatacenter s) then Inr None
      else case calculateElectricity s of
        Inl e \<Rightarrow> Inl e
      | Inr electricity \<Rightarrow>
          (case currentDatacenter s of
             Obj dc \<Rightarrow>
               (let hm = tonum (nth_opt carbonIntensityByHour (currentHour s));
                    adjustedIntensity = js_mul (Fin (carbonIntensity (energy dc))) hm
                in case electricity of
                     None \<Rightarrow> Inl TypeError
                   | Some el \<Rightarrow>
                       (let g = js_mul (withOverhead el) adjustedIntensity;
                            sessionsPerYear = 365 * 24 * 4;
                            annualTons = js_div (js_mul g (Fin sessionsPerYear)) (Fin 1000000)
                        in Inr (Some \<lparr>grams = g, em_carbonIntensity = adjustedIntensity,
                                      baseCarbonIntensity = carbonIntensity (energy dc),
                                      drift = lookup EMISSIONS_DRIFT (dc_id dc),
                                      annualTonsCO2 = annualTons\<rparr>)))
           | _ \<Rightarrow> Inl TypeError))"

subsection \<open>Materials\<close>

record materials_result =
  materials :: "material table"
  ewasteDestinations :: "ewaste_site list"

definition gpuMaterials :: "string list" where
  "gpuMaterials = [''cobalt'', ''lithium'', ''rareEarth'', ''silicon'']"

text \<open>
  \<^verbatim>\<open>getMaterials\<close> copies the four entries in the order of \<^verbatim>\<open>gpuMaterials\<close>; all four
  keys are keys of \<^verbatim>\<open>MATERIALS\<close>.
\<close>

definition getMaterials :: materials_result where
  "getMaterials =
     \<lparr>materials = List.map_filter (\<lambda>k. map_option (Pair k) (map_of MATERIALS k)) gpuMaterials,
      ewasteDestinations = map snd EWASTE\<rparr>"


subsection \<open>Flows\<close>

record flow =
  flow_type :: string
  subtype :: "string option"
  flow_from :: coords
  flow_to :: coords
  label :: string
  intensity :: jsnum
  sourceType :: "string option"
  flow_stressLevel :: "string option"

text \<open>\<^verbatim>\<open>gridMix[source.type] || 0.1\<close>: the share when it is present and not zero.\<close>

definition share_or_default :: "real table \<Rightarrow> string \<Rightarrow> jsnum" where
  "share_or_default gm t =
     (case map_of gm t of Some v \<Rightarrow> if v \<noteq> 0 then Fin v else Fin 0.1 | None \<Rightarrow> Fin 0.1)"

definition data_flow :: "city \<Rightarrow> datacenter \<Rightarrow> flow" where
  "data_flow cty dc =
     \<lparr>flow_type = ''data'', subtype = None, flow_from = city_coords cty, flow_to = dc_coords dc,
      label = ''Request'', intensity = Fin 1, sourceType = None, flow_stressLevel = None\<rparr>"

definition electricity_flow :: "datacenter \<Rightarrow> power_source \<Rightarrow> flow" where
  "electricity_flow dc source =
     \<lparr>flow_type = ''electricity'', subtype = None, flow_from = src_coords source,
      flow_to = dc_coords dc, label = src_name source,
      intensity = share_or_default (gridMix (energy dc)) (src_type source),
      sourceType = Some (src_type source), flow_stressLevel = None\<rparr>"

definition water_flow :: "datacenter \<Rightarrow> water_result \<Rightarrow> flow" where
  "water_flow dc wa =
     \<lparr>flow_type = ''water'', subtype = None, flow_from = wr_sourceCoords wa,
      flow_to = dc_coords dc, label = wr_source wa,
      intensity = js_min (js_div (liters wa) (Fin 10)) (Fin 1),
      sourceType = None, flow_stressLevel = Some (wr_stressLevel wa)\<rparr>"

text \<open>The label's subscript two is the three bytes of its UTF-8 encoding.\<close>

definition emissions_flow :: "datacenter \<Rightarrow> emissions_result \<Rightarrow> drift_destination \<Rightarrow> flow" where
  "emissions_flow dc em dest =
     \<lparr>flow_type = ''emissions'', subtype = None, flow_from = dc_coords dc,
      flow_to = dest_coords dest,
      label = ''CO'' @ [CHR 0xE2, CHR 0x82, CHR 0x82] @ '' drift to '' @ dest_name dest,
      intensity = js_min (js_div (grams em) (Fin 500)) (Fin 1),
      sourceType = None, flow_stressLevel = None\<rparr>"

definition supply_flow :: "datacenter \<Rightarrow> string \<times> material \<Rightarrow> flow" where
  "supply_flow dc entry =
     \<lparr>flow_type = ''materials'', subtype = Some ''supply'',
      flow_from = mat_sourceCoords (snd entry), flow_to = dc_coords dc,
      label = mat_name (snd entry), intensity = Fin 0.5,
      sourceType = None, flow_stressLevel = None\<rparr>"

definition ewaste_flow :: "datacenter \<Rightarrow> ewaste_site \<Rightarrow> flow" where
  "ewaste_flow dc dest =
     \<lparr>flow_type = ''materials'', subtype = Some ''ewaste'', flow_from = dc_coords dc,
      flow_to = ew_coords dest, label = ''E-waste to '' @ ew_name dest, intensity = Fin 0.3,
      sourceType = None, flow_stressLevel = None\<rparr>"

text \<open>A \<^verbatim>\<open>for (const x of xs) flows.push(f(x))\<close> loop.\<close>

definition push_each :: "('a \<Rightarrow> flow) \<Rightarrow> 'a list \<Rightarrow> flow list \<Rightarrow> flow list" where
  "push_each f xs flows = foldl (\<lambda>fs x. fs @ [f x]) flows xs"

text \<open>
  \<^verbatim>\<open>generateFlows\<close> reads \<^verbatim>\<open>this.currentCity\<close> and \<^verbatim>\<open>this.currentDatacenter\<close>; its only
  caller, \<^verbatim>\<open>runSimulation\<close>, has by then read the coordinates of both, so both are
  table objects and are passed here as such. An inherited value for the drift is
  truthy and has no \<^verbatim>\<open>destinations\<close> to iterate over.
\<close>

definition generateFlows ::
    "city \<Rightarrow> datacenter \<Rightarrow> electricity_result \<Rightarrow> water_result \<Rightarrow> emissions_result \<Rightarrow>
     materials_result \<Rightarrow> js_error + flow list" where
  "generateFlows cty dc el wa em ma =
     (let flows = [];
          flows = flows @ [data_flow cty dc];
          flows = push_each (electricity_flow dc) (el_sources el) flows;
          flows = (if js_gt (liters wa) (Fin 0) then flows @ [water_flow dc wa] else flows)
      in case (case drift em of
                 Obj d \<Rightarrow> Inr (push_each (emissions_flow dc em) (destinations d) flows)
               | Inherited _ \<Rightarrow> Inl TypeError
               | _ \<Rightarrow> Inr flows) of
           Inl e \<Rightarrow> Inl e
         | Inr flows \<Rightarrow>
             (let flows = push_each (supply_flow dc) (materials ma) flows;
                  flows = push_each (ewaste_flow dc) (take 2 (ewasteDestinations ma)) flows
              in Inr flows))"

subsection \<open>The full simulation\<close>

record narrative_data =
  distanceKm :: jsnum
  datacenterName :: string
  datacenterLocation :: string
  nd_fossilPercent :: real
  waterLiters :: jsnum
  waterSource :: string
  nd_aquiferDepletion :: real
  waterLitersPerSecond :: real
  co2Grams :: jsnum
  emissionsDrift :: "emissions_drift jsval"
  nd_annualTonsCO2 :: jsnum
  ewasteDestination :: string

text \<open>
  \<^verbatim>\<open>NARRATIVES.standard\<close> formats the numbers into a sentence. The text is not
  modelled (its number formatting depends on the locale); what is modelled is whether
  the template returns: it reads \<^verbatim>\<open>data.emissionsDrift.direction\<close> and
  \<^verbatim>\<open>data.emissionsDrift.destinations[0].name\<close>, which raise a \<^verbatim>\<open>TypeError\<close> unless the
  drift is a table entry with at least one destination.
\<close>

definition NARRATIVES_standard :: "narrative_data \<Rightarrow> js_error + unit" where
  "NARRATIVES_standard d =
     (case emissionsDrift d of
        Obj dr \<Rightarrow> (case destinations dr of [] \<Rightarrow> Inl TypeError | _ # _ \<Rightarrow> Inr ())
      | _ \<Rightarrow> Inl TypeError)"

record simulation_result =
  sim_city :: city
  sim_workload :: "workload jsval"
  sim_datacenter :: datacenter
  sim_hour :: int
  distance :: jsnum
  electricity :: electricity_result
  sim_water :: water_result
  emissions :: emissions_result
  sim_materials :: materials_result
  narrativeData :: narrative_data
  flows :: "flow list"

definition runSimulation :: "engine \<Rightarrow> js_error + simulation_result" where
  "runSimulation s =
     (if \<not> truthy (currentCity s) \<or> \<not> truthy (currentWorkload s) \<or> \<not> truthy (currentDatacenter s)
      then Inl (Error ''Simulation not fully configured'')
      else
       (case (currentCity s, currentDatacenter s) of
          (Obj cty, Obj dc) \<Rightarrow>
            (let dist = calculateDistance (city_coords cty) (dc_coords dc) in
             (case calculateElectricity s of
                Inl e \<Rightarrow> Inl e
              | Inr el_opt \<Rightarrow>
             (case calculateWater s of
                Inl e \<Rightarrow> Inl e
              | Inr wa_opt \<Rightarrow>
             (case calculateEmissions s of
                Inl e \<Rightarrow> Inl e
              | Inr em_opt \<Rightarrow>
             (case (el_opt, wa_opt, em_opt, ewasteDestinations getMaterials) of
                (Some el, Some wa, Some em, ew0 # _) \<Rightarrow>
                  (let ma = getMaterials;
                       nd = \<lparr>distanceKm = js_round dist, datacenterName = dc_name dc,
                             datacenterLocation = location dc,
                             nd_fossilPercent = fossilPercent el, waterLiters = liters wa,
                             waterSource = wr_source wa,
                             nd_aquiferDepletion = wr_aquiferDepletion wa,
                             waterLitersPerSecond = litersPerSecond wa, co2Grams = grams em,
                             emissionsDrift = drift em, nd_annualTonsCO2 = annualTonsCO2 em,
                             ewasteDestination = ew_name ew0\<rparr>
                   in (case NARRATIVES_standard nd of
                         Inl e \<Rightarrow> Inl e
                       | Inr _ \<Rightarrow>
                      (case generateFlows cty dc el wa em ma of
                         Inl e \<Rightarrow> Inl e
                       | Inr fl \<Rightarrow>
                           Inr \<lparr>sim_city = cty, sim_workload = currentWorkload s,
                                sim_datacenter = dc, sim_hour = currentHour s, distance = dist,
                                electricity = el, sim_water = wa, emissions = em,
                                sim_materials = ma, narrativeData = nd, flows = fl\<rparr>)))
              | _ \<Rightarrow> Inl TypeError)))))
        | _ \<Rightarrow> Inl TypeError))"

subsection \<open>Comparing two datacenters\<close>

record comparison =
  waterDifference :: jsnum
  emissionsDifference :: jsnum
  electricityDifference :: jsnum

record comparison_result =
  dc1 :: simulation_result
  dc2 :: simulation_result
  comparison :: comparison

text \<open>\<^verbatim>\<open>((a - b) / b) * 100\<close>, with no test of \<^verbatim>\<open>b\<close>.\<close>

definition percent_difference :: "jsnum \<Rightarrow> jsnum \<Rightarrow> jsnum" where
  "percent_difference a b = js_mul (js_div (js_sub a b) b) (Fin 100)"

text \<open>
  \<^verbatim>\<open>compareDatacenters\<close> writes \<^verbatim>\<open>this.currentDatacenter\<close> twice and restores it after
  the second run. The result is the returned value or the exception, together with the
  state the engine is left in: an exception of either run leaves the method at once.
\<close>

definition compareDatacenters ::
    "string \<Rightarrow> string \<Rightarrow> engine \<Rightarrow> (js_error + comparison_result) \<times> engine" where
  "compareDatacenters dc1Id dc2Id s =
     (let original = currentDatacenter s;
          s = s\<lparr>currentDatacenter := lookup DATACENTERS dc1Id\<rparr>
      in case runSimulation s of
           Inl e \<Rightarrow> (Inl e, s)
         | Inr results1 \<Rightarrow>
             (let s = s\<lparr>currentDatacenter := lookup DATACENTERS dc2Id\<rparr>
              in case runSimulation s of
                   Inl e \<Rightarrow> (Inl e, s)
                 | Inr results2 \<Rightarrow>
                     (let s = s\<lparr>currentDatacenter := original\<rparr>
                      in (Inr \<lparr>dc1 = results1, dc2 = results2,
                               comparison =
                                 \<lparr>waterDifference =
                                    percent_difference (liters (sim_water results1))
                                      (liters (sim_water results2)),
                                  emissionsDifference =
                                    percent_difference (grams (emissions results1))
                                      (grams (emissions results2)),
                                  electricityDifference =
                                    percent_difference (withOverhead (electricity results1))
                                      (withOverhead (electricity results2))\<rparr>\<rparr>, s))))"


section \<open>The specification's formulas\<close>

text \<open>
  The specification describes the base energy of a session by the kind of workload:
  for a chatbot the number of queries times the energy of a query, for an image
  generator the number of images times the energy of an image, for traffic and biometric
  workloads the flat energy of an hour. These are its formulas over the reals, to be
  compared with what the engine computes.
\<close>

definition session_metric :: "workload \<Rightarrow> string \<Rightarrow> real" where
  "session_metric w f = (case map_of (perSession w) f of Some v \<Rightarrow> v | None \<Rightarrow> 0)"

definition spec_baseKwh :: "workload \<Rightarrow> real" where
  "spec_baseKwh w =
     (if wl_id w = ''chatbot'' then session_metric w ''queries'' * session_metric w ''kwhPerQuery''
      else if wl_id w = ''image'' then session_metric w ''images'' * session_metric w ''kwhPerImage''
      else if wl_id w = ''traffic'' \<or> wl_id w = ''biometric'' then session_metric w ''kwhPerHour''
      else 0)"


text \<open>
  The specification's flow list (its section on the flow synthesizer), as the edges
  type, subtype, origin, destination and intensity, for a session that draws \<open>L\<close>
  liters of water and emits \<open>g\<close> grams of carbon dioxide:
  \<^enum> one data flow from the city to the datacenter, intensity 1;
  \<^enum> one electricity flow per power source, from the source to the datacenter, with the
    grid-mix share of the source's type, or 0.1 when the grid mix has no such type;
  \<^enum> one water flow, only if \<open>L > 0\<close>, from the water source, intensity \<open>min (L / 10) 1\<close>;
  \<^enum> one emissions flow per drift destination of the datacenter, intensity
    \<open>min (g / 500) 1\<close>;
  \<^enum> one supply flow per curated material, from the material's source, intensity 0.5;
  \<^enum> two e-waste flows, to the first two e-waste sites of the table, intensity 0.3.
\<close>

type_synonym flow_edge = "string \<times> string option \<times> coords \<times> coords \<times> jsnum"

definition flow_edge :: "flow \<Rightarrow> flow_edge" where
  "flow_edge f = (flow_type f, subtype f, flow_from f, flow_to f, intensity f)"

definition curated_materials :: "material list" where
  "curated_materials =
     map snd (filter (\<lambda>e. fst e \<in> {''cobalt'', ''lithium'', ''rareEarth'', ''silicon''}) MATERIALS)"

definition spec_flows :: "city \<Rightarrow> datacenter \<Rightarrow> real \<Rightarrow> real \<Rightarrow> flow_edge list" where
  "spec_flows c d L g =
     [(''data'', None, city_coords c, dc_coords d, Fin 1)] @
     map (\<lambda>src. (''electricity'', None, src_coords src, dc_coords d,
                  Fin (case map_of (gridMix (energy d)) (src_type src) of
                         Some v \<Rightarrow> v | None \<Rightarrow> 0.1)))
       (sources (energy d)) @
     (if 0 < L
      then [(''water'', None, sourceCoords (water d), dc_coords d, Fin (min (L / 10) 1))]
      else []) @
     map (\<lambda>dest. (''emissions'', None, dc_coords d, dest_coords dest, Fin (min (g / 500) 1)))
       (case map_of EMISSIONS_DRIFT (dc_id d) of Some dr \<Rightarrow> destinations dr | None \<Rightarrow> []) @
     map (\<lambda>m. (''materials'', Some ''supply'', mat_sourceCoords m, dc_coords d, Fin 0.5))
       curated_materials @
     map (\<lambda>e. (''materials'', Some ''ewaste'', dc_coords d, ew_coords e, Fin 0.3))
       (take 2 (map snd EWASTE))"


text \<open>
  The quantity that \<^verbatim>\<open>a\<close> of \<^verbatim>\<open>calculateDistance\<close> approximates: the haversine of the
  central angle, over the reals.
\<close>

definition radians :: "real \<Rightarrow> real" where
  "radians deg = deg * (pi / 180)"

definition haversine_a :: "coords \<Rightarrow> coords \<Rightarrow> real" where
  "haversine_a coord1 coord2 =
     sin (radians (lat coord2 - lat coord1) / 2) * sin (radians (lat coord2 - lat coord1) / 2) +
     cos (radians (lat coord1)) * cos (radians (lat coord2)) *
     sin (radians (lng coord2 - lng coord1) / 2) * sin (radians (lng coord2 - lng coord1) / 2)"

section \<open>Enclosures of the sine and the cosine\<close>

text \<open>
  The nearest double of a sine or a cosine is found from an enclosure of its value. The
  Taylor polynomial is evaluated in Horner form, \<open>1 - y / d1 * (1 - y / d2 * \<dots>)\<close> with
  \<open>y\<close> the square of the argument, in interval arithmetic: each step rounds its lower
  bound down and its upper bound up to 30 decimal places.
\<close>

fun horner :: "real \<Rightarrow> real list \<Rightarrow> real" where
  "horner y [] = 1"
| "horner y (d # ds) = 1 - y / d * horner y ds"

definition down30 :: "real \<Rightarrow> real" where
  "down30 v = of_int \<lfloor>v * 10 ^ 30\<rfloor> / 10 ^ 30"

definition up30 :: "real \<Rightarrow> real" where
  "up30 v = of_int \<lceil>v * 10 ^ 30\<rceil> / 10 ^ 30"

fun horner_bounds :: "real \<Rightarrow> real list \<Rightarrow> real \<times> real" where
  "horner_bounds y [] = (1, 1)"
| "horner_bounds y (d # ds) =
     (case horner_bounds y ds of
        (l, u) \<Rightarrow> (down30 (1 - y / d * u), up30 (1 - y / d * l)))"

definition sin_divisors :: "real list" where
  "sin_divisors = [6, 20, 42, 72, 110, 156, 210, 272, 342, 420, 506]"

definition cos_divisors :: "real list" where
  "cos_divisors = [2, 12, 30, 56, 90, 132, 182, 240, 306, 380, 462, 552]"

section \<open>The scenario of the specification\<close>

text \<open>
  The engine configured for the city of Phoenix, the image workload, the Arizona
  datacenter and the hour 15.
\<close>

definition phoenix_image_arizona_15 :: engine where
  "phoenix_image_arizona_15 =
     configure \<lparr>arg_city = Some ''phoenix'', arg_workload = Some ''image'',
                 arg_datacenter = Some ''arizona'', arg_hour = Some 15\<rparr> constructor"

section \<open>Lemmas: tables and lookups\<close>

lemma lookup_unknown:
  "k \<notin> fst ` set tbl \<Longrightarrow>
   lookup tbl k = (if k \<in> set object_prototype_names then Inherited k else Undefined)"
  using map_of_eq_None_iff[of tbl k] by (simp add: lookup_def)

lemma lookup_known:
  "k \<in> fst ` set tbl \<Longrightarrow> \<exists>v. lookup tbl k = Obj v \<and> (k, v) \<in> set tbl"
proof -
  assume "k \<in> fst ` set tbl"
  then obtain v where "map_of tbl k = Some v"
    using map_of_eq_None_iff[of tbl k] by auto
  then show ?thesis
    by (auto simp: lookup_def dest: map_of_SomeD)
qed

lemma datacenter_cases:
  "(k, d) \<in> set DATACENTERS \<Longrightarrow> d = arizona \<or> d = finland \<or> d = singapore \<or> d = ireland"
  by (auto simp: DATACENTERS_def)

lemma workload_cases:
  "(k, w) \<in> set WORKLOADS \<Longrightarrow>
   w = chatbot \<or> w = image_workload \<or> w = traffic \<or> w = biometric"
  by (auto simp: WORKLOADS_def)

lemma nth_opt_defined: "(\<exists>m. nth_opt xs h = Some m) = (0 \<le> h \<and> h < int (length xs))"
  by (simp add: nth_opt_def)

lemma demand_in_range:
  "0 \<le> h \<Longrightarrow> h < 24 \<Longrightarrow> nth_opt demandByHour h = Some (demandByHour ! nat h)"
  by (simp add: nth_opt_def demandByHour_def)

lemma water_in_range:
  "0 \<le> h \<Longrightarrow> h < 24 \<Longrightarrow> nth_opt waterUsageByHour h = Some (waterUsageByHour ! nat h)"
  by (simp add: nth_opt_def waterUsageByHour_def)

lemma carbon_in_range:
  "0 \<le> h \<Longrightarrow> h < 24 \<Longrightarrow>
   nth_opt carbonIntensityByHour h = Some (carbonIntensityByHour ! nat h)"
  by (simp add: nth_opt_def carbonIntensityByHour_def)

lemma nth_nonneg: "\<forall>x\<in>set xs. 0 \<le> x \<Longrightarrow> n < length xs \<Longrightarrow> (0::real) \<le> xs ! n"
  by simp

lemma demand_nonneg: "0 \<le> h \<Longrightarrow> h < 24 \<Longrightarrow> 0 \<le> demandByHour ! nat h"
  by (rule nth_nonneg) (simp_all add: demandByHour_def)

lemma water_nonneg: "0 \<le> h \<Longrightarrow> h < 24 \<Longrightarrow> 0 \<le> waterUsageByHour ! nat h"
  by (rule nth_nonneg) (simp_all add: waterUsageByHour_def)

lemma carbon_nonneg: "0 \<le> h \<Longrightarrow> h < 24 \<Longrightarrow> 0 \<le> carbonIntensityByHour ! nat h"
  by (rule nth_nonneg) (simp_all add: carbonIntensityByHour_def)

lemma switch_baseKwh_table:
  "(k, w) \<in> set WORKLOADS \<Longrightarrow> switch_baseKwh (Obj w) = Fin (spec_baseKwh w)"
  by (auto simp: WORKLOADS_def chatbot_def image_workload_def traffic_def biometric_def
      switch_baseKwh_def spec_baseKwh_def session_field_def session_metric_def tonum_def)

lemma spec_baseKwh_nonneg: "(k, w) \<in> set WORKLOADS \<Longrightarrow> 0 \<le> spec_baseKwh w"
  by (auto simp: WORKLOADS_def chatbot_def image_workload_def traffic_def biometric_def
      spec_baseKwh_def session_metric_def)

lemma datacenter_factors_nonneg:
  "(k, d) \<in> set DATACENTERS \<Longrightarrow>
   0 \<le> pue (energy d) \<and> 0 \<le> heatPenalty (climate d) \<and> 0 \<le> carbonIntensity (energy d) \<and>
   0 \<le> wue (water d)"
  by (auto simp: DATACENTERS_def arizona_def finland_def singapore_def ireland_def)

lemma drift_of_table_datacenter:
  "(k, d) \<in> set DATACENTERS \<Longrightarrow>
   \<exists>dr x xs. map_of EMISSIONS_DRIFT (dc_id d) = Some dr \<and>
     lookup EMISSIONS_DRIFT (dc_id d) = Obj dr \<and> destinations dr = x # xs \<and> length xs = 1"
  by (auto simp: DATACENTERS_def arizona_def finland_def singapore_def ireland_def
      lookup_def EMISSIONS_DRIFT_def)

lemma getMaterials_ewaste: "\<exists>e es. ewasteDestinations getMaterials = e # es"
  by (simp add: getMaterials_def EWASTE_def)

section \<open>Lemmas: the calculators on a configured engine\<close>

lemma calculateElectricity_configured:
  assumes "truthy (currentWorkload s)" and "currentDatacenter s = Obj d"
  shows "calculateElectricity s =
     Inr (Some \<lparr>baseKwh = switch_baseKwh (currentWorkload s),
                withOverhead =
                  js_mul (js_mul (js_mul (switch_baseKwh (currentWorkload s)) (Fin (pue (energy d))))
                            (Fin (heatPenalty (climate d))))
                    (tonum (nth_opt demandByHour (currentHour s))),
                el_pue = pue (energy d), el_heatPenalty = heatPenalty (climate d),
                el_gridMix = gridMix (energy d),
                fossilPercent = calculateFossilPercent (gridMix (energy d)),
                el_sources = sources (energy d)\<rparr>)"
  using assms by (simp add: calculateElectricity_def Let_def)

lemma calculateWater_configured:
  assumes "truthy (currentWorkload s)" and "currentDatacenter s = Obj d"
    and "calculateElectricity s = Inr (Some el)"
  shows "calculateWater s =
     Inr (Some \<lparr>liters = js_mul (js_mul (withOverhead el) (Fin (wue (water d))))
                           (tonum (nth_opt waterUsageByHour (currentHour s))),
                wr_wue = wue (water d), wr_source = water_source (water d),
                wr_sourceCoords = sourceCoords (water d), wr_stressLevel = stressLevel (water d),
                wr_aquiferDepletion = aquiferDepletion (water d),
                hourModifier = nth_opt waterUsageByHour (currentHour s),
                litersPerSecond = annualWithdrawal (water d) / (365 * 24 * 3600)\<rparr>)"
  using assms by (simp add: calculateWater_def Let_def)

lemma calculateEmissions_configured:
  assumes "currentDatacenter s = Obj d" and "calculateElectricity s = Inr (Some el)"
  shows "calculateEmissions s =
     Inr (Some \<lparr>grams = js_mul (withOverhead el)
                          (js_mul (Fin (carbonIntensity (energy d)))
                             (tonum (nth_opt carbonIntensityByHour (currentHour s)))),
                em_carbonIntensity =
                  js_mul (Fin (carbonIntensity (energy d)))
                    (tonum (nth_opt carbonIntensityByHour (currentHour s))),
                baseCarbonIntensity = carbonIntensity (energy d),
                drift = lookup EMISSIONS_DRIFT (dc_id d),
                annualTonsCO2 =
                  js_div (js_mul (js_mul (withOverhead el)
                          (js_mul (Fin (carbonIntensity (energy d)))
                             (tonum (nth_opt carbonIntensityByHour (currentHour s)))))
                            (Fin (365 * 24 * 4))) (Fin 1000000)\<rparr>)"
  using assms by (simp add: calculateEmissions_def Let_def)

lemma withOverhead_table:
  assumes "(wid, w) \<in> set WORKLOADS" "currentWorkload s = Obj w" "currentDatacenter s = Obj d"
    "0 \<le> currentHour s" "currentHour s < 24"
  shows "\<exists>el. calculateElectricity s = Inr (Some el) \<and> baseKwh el = Fin (spec_baseKwh w) \<and>
     withOverhead el = Fin (spec_baseKwh w * pue (energy d) * heatPenalty (climate d) *
                             demandByHour ! nat (currentHour s)) \<and>
     el_sources el = sources (energy d)"
  using assms calculateElectricity_configured[of s d]
  by (simp add: switch_baseKwh_table demand_in_range tonum_def)

lemma liters_table:
  assumes "(wid, w) \<in> set WORKLOADS" "currentWorkload s = Obj w" "currentDatacenter s = Obj d"
    "0 \<le> currentHour s" "currentHour s < 24"
  shows "\<exists>el x wa. calculateElectricity s = Inr (Some el) \<and> withOverhead el = Fin x \<and>
     calculateWater s = Inr (Some wa) \<and>
     liters wa = js_mul (js_mul (withOverhead el) (Fin (wue (water d))))
                   (Fin (waterUsageByHour ! nat (currentHour s))) \<and>
     liters wa = Fin (x * wue (water d) * waterUsageByHour ! nat (currentHour s)) \<and>
     wr_sourceCoords wa = sourceCoords (water d)"
proof -
  obtain el where el: "calculateElectricity s = Inr (Some el)"
    and x: "withOverhead el = Fin (spec_baseKwh w * pue (energy d) * heatPenalty (climate d) *
                             demandByHour ! nat (currentHour s))"
    using withOverhead_table[OF assms] by blast
  show ?thesis
    using assms el x calculateWater_configured[of s d el]
    by (simp add: water_in_range tonum_def)
qed

lemma grams_table:
  assumes "(wid, w) \<in> set WORKLOADS" "currentWorkload s = Obj w" "currentDatacenter s = Obj d"
    "0 \<le> currentHour s" "currentHour s < 24"
  shows "\<exists>el x em. calculateElectricity s = Inr (Some el) \<and> withOverhead el = Fin x \<and>
     calculateEmissions s = Inr (Some em) \<and>
     grams em = Fin (x * (carbonIntensity (energy d) *
                           carbonIntensityByHour ! nat (currentHour s))) \<and>
     drift em = lookup EMISSIONS_DRIFT (dc_id d)"
proof -
  obtain el where el: "calculateElectricity s = Inr (Some el)"
    and x: "withOverhead el = Fin (spec_baseKwh w * pue (energy d) * heatPenalty (climate d) *
                             demandByHour ! nat (currentHour s))"
    using withOverhead_table[OF assms] by blast
  show ?thesis
    using assms el x calculateEmissions_configured[of s d el]
    by (simp add: carbon_in_range tonum_def)
qed

section \<open>Lemmas: flows and the full simulation\<close>

lemma push_each_map: "push_each f xs fl = fl @ map f xs"
  unfolding push_each_def by (induction xs arbitrary: fl) simp_all

lemma generateFlows_closed:
  "generateFlows c d el wa em ma =
    (case drift em of
       Inherited _ \<Rightarrow> Inl TypeError
     | dr \<Rightarrow>
        Inr ([data_flow c d] @ map (electricity_flow d) (el_sources el) @
             (if js_gt (liters wa) (Fin 0) then [water_flow d wa] else []) @
             (case dr of Obj x \<Rightarrow> map (emissions_flow d em) (destinations x) | _ \<Rightarrow> []) @
             map (supply_flow d) (materials ma) @
             map (ewaste_flow d) (take 2 (ewasteDestinations ma))))"
  by (simp add: generateFlows_def Let_def push_each_map split: jsval.splits)

lemma runSimulation_configured:
  assumes c: "currentCity s = Obj c" and w: "truthy (currentWorkload s)"
    and d: "currentDatacenter s = Obj d" and tbl: "(k, d) \<in> set DATACENTERS"
  shows "\<exists>r. runSimulation s = Inr r \<and>
     calculateElectricity s = Inr (Some (electricity r)) \<and>
     calculateWater s = Inr (Some (sim_water r)) \<and>
     calculateEmissions s = Inr (Some (emissions r)) \<and>
     generateFlows c d (electricity r) (sim_water r) (emissions r) getMaterials = Inr (flows r)"
proof -
  obtain el where el: "calculateElectricity s = Inr (Some el)"
    using calculateElectricity_configured[OF w d] by simp
  obtain wa where wa: "calculateWater s = Inr (Some wa)"
    using calculateWater_configured[OF w d el] by simp
  obtain em where em: "calculateEmissions s = Inr (Some em)"
    and dr: "drift em = lookup EMISSIONS_DRIFT (dc_id d)"
    using calculateEmissions_configured[OF d el] by simp
  obtain dr' x xs where dr': "drift em = Obj dr'" "destinations dr' = x # xs"
    using drift_of_table_datacenter[OF tbl] dr by auto
  obtain e es where ew: "ewasteDestinations getMaterials = e # es"
    using getMaterials_ewaste by blast
  obtain fl where fl: "generateFlows c d el wa em getMaterials = Inr fl"
    using dr' by (simp add: generateFlows_closed)
  show ?thesis
    using c w d el wa em dr' ew fl
    by (simp add: runSimulation_def NARRATIVES_standard_def Let_def)
qed

lemma calculateElectricity_error: "calculateElectricity s = Inl e \<Longrightarrow> e = TypeError"
  by (auto simp: calculateElectricity_def Let_def split: if_splits jsval.splits)

lemma calculateWater_error: "calculateWater s = Inl e \<Longrightarrow> e = TypeError"
  by (auto simp: calculateWater_def Let_def dest: calculateElectricity_error
      split: if_splits jsval.splits sum.splits option.splits)

lemma calculateEmissions_error: "calculateEmissions s = Inl e \<Longrightarrow> e = TypeError"
  by (auto simp: calculateEmissions_def Let_def dest: calculateElectricity_error
      split: if_splits jsval.splits sum.splits option.splits)

lemma NARRATIVES_standard_error: "NARRATIVES_standard nd = Inl e \<Longrightarrow> e = TypeError"
  by (auto simp: NARRATIVES_standard_def split: jsval.splits list.splits)

lemma generateFlows_error: "generateFlows c d el wa em ma = Inl e \<Longrightarrow> e = TypeError"
  by (auto simp: generateFlows_closed split: jsval.splits)

lemma runSimulation_error:
  assumes "runSimulation s = Inl e"
  shows "e = (if \<not> truthy (currentCity s) \<or> \<not> truthy (currentWorkload s) \<or>
                 \<not> truthy (currentDatacenter s)
              then Error ''Simulation not fully configured'' else TypeError)"
proof (cases "\<not> truthy (currentCity s) \<or> \<not> truthy (currentWorkload s) \<or>
                 \<not> truthy (currentDatacenter s)")
  case True
  then show ?thesis using assms by (simp add: runSimulation_def)
next
  case False
  then have "e = TypeError"
    using assms
    by (auto simp: runSimulation_def Let_def
        dest: calculateElectricity_error calculateWater_error calculateEmissions_error
          NARRATIVES_standard_error generateFlows_error
        split: jsval.splits sum.splits option.splits list.splits)
  with False show ?thesis by simp
qed

lemma runSimulation_unconfigured:
  "runSimulation s = Inl (Error ''Simulation not fully configured'') \<longleftrightarrow>
   \<not> truthy (currentCity s) \<or> \<not> truthy (currentWorkload s) \<or> \<not> truthy (currentDatacenter s)"
  using runSimulation_error[of s "Error ''Simulation not fully configured''"]
  by (auto simp: runSimulation_def)

lemma runSimulation_not_object:
  "(\<forall>d. currentDatacenter s \<noteq> Obj d) \<Longrightarrow> \<exists>e. runSimulation s = Inl e"
  by (cases "currentDatacenter s"; cases "currentCity s") (simp_all add: runSimulation_def)

lemma compareDatacenters_returns:
  assumes "runSimulation (s\<lparr>currentDatacenter := lookup DATACENTERS idA\<rparr>) = Inr r1"
    and "runSimulation (s\<lparr>currentDatacenter := lookup DATACENTERS idB\<rparr>) = Inr r2"
  shows "compareDatacenters idA idB s =
    (Inr \<lparr>dc1 = r1, dc2 = r2,
          comparison =
            \<lparr>waterDifference =
               percent_difference (liters (sim_water r1)) (liters (sim_water r2)),
             emissionsDifference =
               percent_difference (grams (emissions r1)) (grams (emissions r2)),
             electricityDifference =
               percent_difference (withOverhead (electricity r1))
                 (withOverhead (electricity r2))\<rparr>\<rparr>, s)"
  using assms by (simp add: compareDatacenters_def Let_def)


lemma scenario_state:
  "phoenix_image_arizona_15 =
     \<lparr>currentCity = lookup CITIES ''phoenix'', currentWorkload = Obj image_workload,
      currentDatacenter = Obj arizona, currentHour = 15\<rparr>"
  by (simp add: phoenix_image_arizona_15_def configure_def constructor_def lookup_def
      WORKLOADS_def DATACENTERS_def)

lemma scenario_city: "\<exists>c. lookup CITIES ''phoenix'' = Obj c"
  by (simp add: lookup_def CITIES_def)

lemma percent_difference_zero:
  "percent_difference (Fin a) (Fin 0) = (if a = 0 then NaN else if 0 < a then PosInf else NegInf)"
  by (simp add: percent_difference_def js_sub_def signed_inf_def)

section \<open>Lemmas: the flow list\<close>

lemma overhead_nonneg:
  assumes "(wid, w) \<in> set WORKLOADS" "(did, d) \<in> set DATACENTERS" "0 \<le> h" "h < 24"
  shows "0 \<le> spec_baseKwh w * pue (energy d) * heatPenalty (climate d) * demandByHour ! nat h"
  using spec_baseKwh_nonneg[OF assms(1)] datacenter_factors_nonneg[OF assms(2)]
    demand_nonneg[OF assms(3,4)]
  by simp

lemma table_share:
  "(k, d) \<in> set DATACENTERS \<Longrightarrow> src \<in> set (sources (energy d)) \<Longrightarrow>
   \<exists>x. share_or_default (gridMix (energy d)) (src_type src) = Fin x \<and>
       x = (case map_of (gridMix (energy d)) (src_type src) of Some v \<Rightarrow> v | None \<Rightarrow> 0.1) \<and>
       0 \<le> x \<and> x \<le> 1"
  by (auto simp: DATACENTERS_def arizona_def finland_def singapore_def ireland_def
      share_or_default_def)

lemma table_sources_length:
  "(k, d) \<in> set DATACENTERS \<Longrightarrow> length (sources (energy d)) \<in> {2, 3}"
  by (auto simp: DATACENTERS_def arizona_def finland_def singapore_def ireland_def)

lemma electricity_edges:
  assumes "(k, d) \<in> set DATACENTERS"
  shows "map (\<lambda>src. flow_edge (electricity_flow d src)) (sources (energy d)) =
         map (\<lambda>src. (''electricity'', None, src_coords src, dc_coords d,
                  Fin (case map_of (gridMix (energy d)) (src_type src) of
                         Some v \<Rightarrow> v | None \<Rightarrow> 0.1)))
           (sources (energy d))"
proof (rule map_cong[OF refl])
  fix src assume "src \<in> set (sources (energy d))"
  then show "flow_edge (electricity_flow d src) =
      (''electricity'', None, src_coords src, dc_coords d,
                  Fin (case map_of (gridMix (energy d)) (src_type src) of
                         Some v \<Rightarrow> v | None \<Rightarrow> 0.1))"
    using table_share[OF assms, of src] by (auto simp: flow_edge_def electricity_flow_def)
qed

lemma supply_edges:
  "map (\<lambda>e. flow_edge (supply_flow d e)) (materials getMaterials) =
   map (\<lambda>m. (''materials'', Some ''supply'', mat_sourceCoords m, dc_coords d, Fin 0.5))
     curated_materials"
  by (simp add: getMaterials_def gpuMaterials_def MATERIALS_def curated_materials_def
      List.map_filter_def flow_edge_def supply_flow_def)

lemma ewaste_edges:
  "map (\<lambda>e. flow_edge (ewaste_flow d e)) (take 2 (ewasteDestinations getMaterials)) =
   map (\<lambda>e. (''materials'', Some ''ewaste'', dc_coords d, ew_coords e, Fin 0.3))
     (take 2 (map snd EWASTE))"
  by (simp add: getMaterials_def flow_edge_def ewaste_flow_def)

lemma materials_lengths:
  "length (materials getMaterials) = 4 \<and> length (take 2 (ewasteDestinations getMaterials)) = 2"
  by (simp add: getMaterials_def gpuMaterials_def MATERIALS_def EWASTE_def List.map_filter_def)

lemma unit_interval_min: "0 \<le> a \<Longrightarrow> 0 < b \<Longrightarrow> 0 \<le> min (a / b) (1::real) \<and> min (a / b) 1 \<le> 1"
  by simp

section \<open>Lemmas: the haversine over the reals\<close>

text \<open>
  Over the reals \<^verbatim>\<open>a\<close> is a convex combination of two numbers of the unit interval, so
  both square roots are defined: a \<^verbatim>\<open>NaN\<close> of \<^verbatim>\<open>calculateDistance\<close> is an effect of the
  rounding.
\<close>

lemma radians_diff: "radians (x - y) = radians x - radians y"
  by (simp add: radians_def left_diff_distrib)

lemma sin_half_sq: "sin (x / 2) * sin (x / 2) = (1 - cos x) / 2" for x :: real
  using cos_double_sin[of "x / 2"] by (simp add: power2_eq_square)

lemma convex_algebra:
  fixes c1 c2 s1 s2 t :: real
  shows "(1 - (c2 * c1 + s2 * s1)) / 2 + c1 * c2 * ((1 - t) / 2) =
     (1 - (1 - t) / 2) * ((1 - (c2 * c1 + s2 * s1)) / 2) +
     ((1 - t) / 2) * ((1 + (c2 * c1 - s2 * s1)) / 2)"
  by (simp add: field_simps)

lemma haversine_a_convex:
  "haversine_a p q =
     (1 - (1 - cos (radians (lng q - lng p))) / 2) * ((1 - cos (radians (lat q) - radians (lat p))) / 2) +
     ((1 - cos (radians (lng q - lng p))) / 2) * ((1 + cos (radians (lat q) + radians (lat p))) / 2)"
proof -
  have "haversine_a p q =
      (1 - cos (radians (lat q) - radians (lat p))) / 2 +
      cos (radians (lat p)) * cos (radians (lat q)) * ((1 - cos (radians (lng q - lng p))) / 2)"
    by (simp add: haversine_a_def sin_half_sq radians_diff mult.assoc)
  also have "\<dots> = (1 - (1 - cos (radians (lng q - lng p))) / 2) * ((1 - cos (radians (lat q) - radians (lat p))) / 2) +
     ((1 - cos (radians (lng q - lng p))) / 2) * ((1 + cos (radians (lat q) + radians (lat p))) / 2)"
    unfolding cos_diff cos_add by (rule convex_algebra)
  finally show ?thesis .
qed

lemma convex_unit:
  fixes t a b :: real
  assumes "0 \<le> t" "t \<le> 1" "0 \<le> a" "a \<le> 1" "0 \<le> b" "b \<le> 1"
  shows "0 \<le> (1 - t) * a + t * b \<and> (1 - t) * a + t * b \<le> 1"
proof
  show "0 \<le> (1 - t) * a + t * b" using assms by simp
  have "(1 - t) * a \<le> (1 - t) * 1" using assms by (intro mult_left_mono) simp_all
  moreover have "t * b \<le> t * 1" using assms by (intro mult_left_mono) simp_all
  ultimately show "(1 - t) * a + t * b \<le> 1" by simp
qed

lemma half_one_minus_cos: "0 \<le> (1 - cos x) / 2 \<and> (1 - cos x) / 2 \<le> 1" for x :: real
proof
  show "0 \<le> (1 - cos x) / 2" by simp
  have "- 1 \<le> cos x" by simp
  then show "(1 - cos x) / 2 \<le> 1" by simp
qed

lemma half_one_plus_cos: "0 \<le> (1 + cos x) / 2 \<and> (1 + cos x) / 2 \<le> 1" for x :: real
proof
  have "- 1 \<le> cos x" by simp
  then have "0 \<le> 1 + cos x" by linarith
  then show "0 \<le> (1 + cos x) / 2" by simp
  show "(1 + cos x) / 2 \<le> 1" by simp
qed

lemma haversine_a_unit: "0 \<le> haversine_a p q \<and> haversine_a p q \<le> 1"
  unfolding haversine_a_convex
  using half_one_minus_cos half_one_plus_cos by (intro convex_unit) simp_all

section \<open>Lemmas: rounding to the nearest double\<close>

lemma round_even_near:
  assumes "of_int n - 1 / 2 < y" "y < of_int n + 1 / 2"
  shows "round_even y = n"
proof (cases "of_int n \<le> y")
  case True
  then have "\<lfloor>y\<rfloor> = n" using assms by (intro floor_unique) auto
  then show ?thesis using assms by (simp add: round_even_def)
next
  case False
  then have "\<lfloor>y\<rfloor> = n - 1" using assms by (intro floor_unique) auto
  then show ?thesis using assms False by (simp add: round_even_def)
qed

lemma binade:
  assumes "2 powi e \<le> \<bar>x\<bar>" "\<bar>x\<bar> < 2 powi (e + 1)"
  shows "\<lfloor>log 2 \<bar>x\<bar>\<rfloor> = e"
proof -
  have "0 < (2::real) powi e" by simp
  then have pos: "0 < \<bar>x\<bar>" using assms(1) by linarith
  have "(2::real) powr real_of_int e = 2 powi e"
    by (rule powr_real_of_int') simp_all
  moreover have "(2::real) powr real_of_int (e + 1) = 2 powi (e + 1)"
    by (rule powr_real_of_int') simp_all
  ultimately show ?thesis
    using assms floor_log_eq_powr_iff[OF pos, of 2 e] by simp
qed

lemma rnd64_near:
  assumes "2 powi e \<le> \<bar>x\<bar>" "\<bar>x\<bar> < 2 powi (e + 1)"
    and "of_int n - 1 / 2 < x / 2 powi (e - 52)" "x / 2 powi (e - 52) < of_int n + 1 / 2"
  shows "rnd64 x = of_int n * 2 powi (e - 52)"
proof -
  have "0 < (2::real) powi e" by simp
  then have "0 < \<bar>x\<bar>" using assms(1) by linarith
  then have "x \<noteq> 0" by simp
  then show ?thesis
    using binade[OF assms(1,2)] round_even_near[OF assms(3,4)]
    by (simp add: rnd64_def Let_def)
qed

lemma round_even_minus: "round_even (- y) = - round_even y"
proof (cases "y = of_int \<lfloor>y\<rfloor>")
  case True
  then have "\<lfloor>- y\<rfloor> = - \<lfloor>y\<rfloor>"
    by (metis floor_of_int of_int_minus)
  with True show ?thesis by (simp add: round_even_def Let_def)
next
  case False
  then have f: "\<lfloor>- y\<rfloor> = - \<lfloor>y\<rfloor> - 1"
    by (simp add: floor_minus ceiling_altdef)
  have "of_int \<lfloor>y\<rfloor> < y" using False of_int_floor_le[of y] by linarith
  then show ?thesis
    unfolding round_even_def Let_def f by (auto simp: algebra_simps)
qed

lemma rnd64_minus: "rnd64 (- x) = - rnd64 x"
  by (simp add: rnd64_def Let_def round_even_minus)

lemma round_even_tie: "even n \<Longrightarrow> round_even (of_int n + 1 / 2) = n"
proof -
  have "\<lfloor>of_int n + (1 / 2 :: real)\<rfloor> = n" by (intro floor_unique) simp_all
  then show "even n \<Longrightarrow> round_even (of_int n + 1 / 2) = n"
    by (simp add: round_even_def)
qed

lemma rnd64_tie:
  assumes "2 powi e \<le> \<bar>x\<bar>" "\<bar>x\<bar> < 2 powi (e + 1)"
    and "x / 2 powi (e - 52) = of_int n + 1 / 2" "even n"
  shows "rnd64 x = of_int n * 2 powi (e - 52)"
proof -
  have "0 < (2::real) powi e" by simp
  then have "0 < \<bar>x\<bar>" using assms(1) by linarith
  then have "x \<noteq> 0" by simp
  then show ?thesis
    using binade[OF assms(1,2)] round_even_tie[OF assms(4)] assms(3)
    by (simp add: rnd64_def Let_def)
qed

lemma rnd64_zero: "rnd64 0 = 0"
  by (simp add: rnd64_def)

lemma rnd64_one: "rnd64 1 = 1"
  using rnd64_near[of "0" "1" "4503599627370496"]
  by (simp add: power_int_minus)

lemma rnd64_82: "rnd64 82 = 82"
  using rnd64_near[of "6" "82" "5770237022568448"]
  by (simp add: power_int_minus)

lemma rnd64_minus_82: "rnd64 (- 82) = - 82"
  using rnd64_near[of "6" "- 82" "- 5770237022568448"]
  by (simp add: power_int_minus)

lemma rnd64_180: "rnd64 180 = 180"
  using rnd64_near[of "7" "180" "6333186975989760"]
  by (simp add: power_int_minus)

lemma rnd64_minus_164: "rnd64 (- 164) = - 164"
  using rnd64_near[of "7" "- 164" "- 5770237022568448"]
  by (simp add: power_int_minus)

lemma double_sub_swap: "double_sub x y = - double_sub y x"
  using rnd64_minus[of "y - x"] by (simp add: double_sub_def)

lemma double_mul_commute: "double_mul x y = double_mul y x"
  by (simp add: double_mul_def mult.commute)

lemma double_mul_minus_left: "double_mul (- x) y = - double_mul x y"
  using rnd64_minus[of "x * y"] by (simp add: double_mul_def)

lemma double_mul_minus_right: "double_mul x (- y) = - double_mul x y"
  using rnd64_minus[of "x * y"] by (simp add: double_mul_def)

lemma double_div_minus_left: "double_div (- x) y = - double_div x y"
  using rnd64_minus[of "x / y"] by (simp add: double_div_def)

lemma toRad_minus: "toRad (- deg) = - toRad deg"
  by (simp add: toRad_def double_mul_minus_left)

lemma Math_sin_minus: "Math_sin (- x) = - Math_sin x"
  using rnd64_minus[of "sin x"] by (simp add: Math_sin_def)

lemma Math_cos_minus: "Math_cos (- x) = Math_cos x"
  by (simp add: Math_cos_def)

section \<open>Lemmas: enclosures of the sine and the cosine\<close>

lemma down30_le: "down30 v \<le> v"
proof -
  have "of_int \<lfloor>v * 10 ^ 30\<rfloor> \<le> v * 10 ^ 30" by (rule of_int_floor_le)
  then show ?thesis by (simp add: down30_def field_simps)
qed

lemma up30_ge: "v \<le> up30 v"
proof -
  have "v * 10 ^ 30 \<le> of_int \<lceil>v * 10 ^ 30\<rceil>" by (rule le_of_int_ceiling)
  then show ?thesis by (simp add: up30_def field_simps)
qed

lemma horner_bounds_sound:
  "0 \<le> y \<Longrightarrow> list_all (\<lambda>d. 0 < d) ds \<Longrightarrow>
   fst (horner_bounds y ds) \<le> horner y ds \<and> horner y ds \<le> snd (horner_bounds y ds)"
proof (induction ds)
  case Nil
  then show ?case by simp
next
  case (Cons d ds)
  obtain l u where lu: "horner_bounds y ds = (l, u)" by (cases "horner_bounds y ds")
  from Cons lu have ih: "l \<le> horner y ds" "horner y ds \<le> u" and c: "0 \<le> y / d"
    by simp_all
  have "y / d * l \<le> y / d * horner y ds"
    using ih(1) c by (rule mult_left_mono)
  moreover have "y / d * horner y ds \<le> y / d * u"
    using ih(2) c by (rule mult_left_mono)
  ultimately show ?case
    using down30_le[of "1 - y / d * u"] up30_ge[of "1 - y / d * l"] lu
    by simp
qed

lemma sin_sum_25:
  fixes x :: real
  shows "(\<Sum>m<25. sin_coeff m * x ^ m) = x * horner (x * x) sin_divisors"
proof -
  have "(\<Sum>m<25. sin_coeff m * x ^ m) = x - x ^ 3 / 6 + x ^ 5 / 120 - x ^ 7 / 5040 + x ^ 9 / 362880
      - x ^ 11 / 39916800 + x ^ 13 / 6227020800 - x ^ 15 / 1307674368000
      + x ^ 17 / 355687428096000 - x ^ 19 / 121645100408832000
      + x ^ 21 / 51090942171709440000 - x ^ 23 / 25852016738884976640000"
    by (simp add: lessThan_nat_numeral lessThan_Suc sin_coeff_def fact_numeral)
  also have "\<dots> =
     x * (1 - x * x / 6 * (1 - x * x / 20 * (1 - x * x / 42 * (1 - x * x / 72 *
         (1 - x * x / 110 * (1 - x * x / 156 * (1 - x * x / 210 * (1 - x * x / 272 *
         (1 - x * x / 342 * (1 - x * x / 420 * (1 - x * x / 506)))))))))))"
    by (simp add: field_simps power_numeral_reduce)
  also have "\<dots> = x * horner (x * x) sin_divisors"
    by (simp add: sin_divisors_def)
  finally show ?thesis .
qed

lemma cos_sum_26:
  fixes x :: real
  shows "(\<Sum>m<26. cos_coeff m * x ^ m) = horner (x * x) cos_divisors"
proof -
  have "(\<Sum>m<26. cos_coeff m * x ^ m) = 1 - x ^ 2 / 2 + x ^ 4 / 24 - x ^ 6 / 720 + x ^ 8 / 40320
      - x ^ 10 / 3628800 + x ^ 12 / 479001600 - x ^ 14 / 87178291200
      + x ^ 16 / 20922789888000 - x ^ 18 / 6402373705728000
      + x ^ 20 / 2432902008176640000 - x ^ 22 / 1124000727777607680000
      + x ^ 24 / 620448401733239439360000"
    by (simp add: lessThan_nat_numeral lessThan_Suc cos_coeff_def fact_numeral)
  also have "\<dots> =
     1 - x * x / 2 * (1 - x * x / 12 * (1 - x * x / 30 * (1 - x * x / 56 *
         (1 - x * x / 90 * (1 - x * x / 132 * (1 - x * x / 182 * (1 - x * x / 240 *
         (1 - x * x / 306 * (1 - x * x / 380 * (1 - x * x / 462 * (1 - x * x / 552)))))))))))"
    by (simp add: field_simps power_numeral_reduce)
  also have "\<dots> = horner (x * x) cos_divisors"
    by (simp add: cos_divisors_def)
  finally show ?thesis .
qed

lemma Maclaurin_cos_bound:
  "\<bar>cos x - (\<Sum>m<n. cos_coeff m * x ^ m)\<bar> \<le> inverse (fact n) * \<bar>x\<bar> ^ n"
proof -
  obtain t where
    "cos x = (\<Sum>m<n. cos_coeff m * x ^ m) + (cos (t + 1 / 2 * real n * pi) / fact n) * x ^ n"
    using Maclaurin_cos_expansion[of x n] by blast
  then have e: "cos x - (\<Sum>m<n. cos_coeff m * x ^ m) = (cos (t + 1 / 2 * real n * pi) / fact n) * x ^ n"
    by simp
  have "\<bar>cos x - (\<Sum>m<n. cos_coeff m * x ^ m)\<bar> = \<bar>cos (t + 1 / 2 * real n * pi)\<bar> * \<bar>x\<bar> ^ n / fact n"
    unfolding e by (simp add: abs_mult power_abs)
  also have "\<dots> \<le> 1 * \<bar>x\<bar> ^ n / fact n"
    by (intro divide_right_mono mult_right_mono) simp_all
  also have "\<dots> = inverse (fact n) * \<bar>x\<bar> ^ n"
    by (simp add: field_simps)
  finally show ?thesis .
qed

lemma taylor_remainder_small:
  fixes x :: real
  assumes "0 \<le> x" "x \<le> 8 / 5" and "inverse (fact n) * (8 / 5) ^ n \<le> (1 / 10 ^ 20 :: real)"
  shows "inverse (fact n) * \<bar>x\<bar> ^ n \<le> 1 / 10 ^ 20"
proof -
  have "\<bar>x\<bar> ^ n \<le> (8 / 5) ^ n"
    using assms(1,2) by (intro power_mono) simp_all
  then have "inverse (fact n) * \<bar>x\<bar> ^ n \<le> inverse (fact n) * (8 / 5) ^ n"
    by (intro mult_left_mono) simp_all
  then show ?thesis using assms(3) by linarith
qed

lemma sin_enclosure:
  fixes x :: real
  assumes "0 \<le> x" "x \<le> 8 / 5" and "horner_bounds (x * x) sin_divisors = (l, u)"
  shows "x * l - 1 / 10 ^ 20 \<le> sin x \<and> sin x \<le> x * u + 1 / 10 ^ 20"
proof -
  have "fst (horner_bounds (x * x) sin_divisors) \<le> horner (x * x) sin_divisors \<and>
      horner (x * x) sin_divisors \<le> snd (horner_bounds (x * x) sin_divisors)"
    by (rule horner_bounds_sound) (simp_all add: sin_divisors_def)
  then have h: "l \<le> horner (x * x) sin_divisors" "horner (x * x) sin_divisors \<le> u"
    using assms(3) by simp_all
  have t: "x * l \<le> x * horner (x * x) sin_divisors" "x * horner (x * x) sin_divisors \<le> x * u"
    using h assms(1) by (simp_all add: mult_left_mono)
  have "\<bar>sin x - (\<Sum>m<25. sin_coeff m * x ^ m)\<bar> \<le> inverse (fact 25) * \<bar>x\<bar> ^ 25"
    by (rule Maclaurin_sin_bound)
  moreover have "inverse (fact 25) * \<bar>x\<bar> ^ 25 \<le> 1 / 10 ^ 20"
    by (rule taylor_remainder_small[OF assms(1,2)]) (simp add: fact_numeral power_divide)
  ultimately have "\<bar>sin x - x * horner (x * x) sin_divisors\<bar> \<le> 1 / 10 ^ 20"
    unfolding sin_sum_25 by linarith
  then show ?thesis using t by linarith
qed

lemma cos_enclosure:
  fixes x :: real
  assumes "0 \<le> x" "x \<le> 8 / 5" and "horner_bounds (x * x) cos_divisors = (l, u)"
  shows "l - 1 / 10 ^ 20 \<le> cos x \<and> cos x \<le> u + 1 / 10 ^ 20"
proof -
  have "fst (horner_bounds (x * x) cos_divisors) \<le> horner (x * x) cos_divisors \<and>
      horner (x * x) cos_divisors \<le> snd (horner_bounds (x * x) cos_divisors)"
    by (rule horner_bounds_sound) (simp_all add: cos_divisors_def)
  then have h: "l \<le> horner (x * x) cos_divisors" "horner (x * x) cos_divisors \<le> u"
    using assms(3) by simp_all
  have "\<bar>cos x - (\<Sum>m<26. cos_coeff m * x ^ m)\<bar> \<le> inverse (fact 26) * \<bar>x\<bar> ^ 26"
    by (rule Maclaurin_cos_bound)
  moreover have "inverse (fact 26) * \<bar>x\<bar> ^ 26 \<le> 1 / 10 ^ 20"
    by (rule taylor_remainder_small[OF assms(1,2)]) (simp add: fact_numeral power_divide)
  ultimately have "\<bar>cos x - horner (x * x) cos_divisors\<bar> \<le> 1 / 10 ^ 20"
    unfolding cos_sum_26 by linarith
  then show ?thesis using h by linarith
qed

text \<open>An enclosure of \<open>pi\<close> tight enough to fix its nearest double.\<close>

lemma sin_below_half: "sin (5235987755982988729 / 10000000000000000000 :: real) < 1 / 2"
proof -
  have b: "horner_bounds ((5235987755982988729 / 10000000000000000000) * (5235987755982988729 / 10000000000000000000)) sin_divisors =
      (47746482927568600732168721751 / 50000000000000000000000000000, 954929658551372014643374435021 / 1000000000000000000000000000000)"
    by (simp add: sin_divisors_def down30_def up30_def)
  have "sin (5235987755982988729 / 10000000000000000000 :: real) \<le> 5235987755982988729 / 10000000000000000000 * (954929658551372014643374435021 / 1000000000000000000000000000000) + 1 / 10 ^ 20"
    using sin_enclosure[OF _ _ b] by simp
  also have "\<dots> < 1 / 2" by simp
  finally show ?thesis .
qed

lemma sin_above_half: "1 / 2 < sin (1308996938995747183 / 2500000000000000000 :: real)"
proof -
  have b: "horner_bounds ((1308996938995747183 / 2500000000000000000) * (1308996938995747183 / 2500000000000000000)) sin_divisors =
      (954929658551372014592436049231 / 1000000000000000000000000000000, 59683103659460750912027253077 / 62500000000000000000000000000)"
    by (simp add: sin_divisors_def down30_def up30_def)
  have "(1 / 2 :: real) < 1308996938995747183 / 2500000000000000000 * (954929658551372014592436049231 / 1000000000000000000000000000000) - 1 / 10 ^ 20" by simp
  also have "\<dots> \<le> sin (1308996938995747183 / 2500000000000000000)"
    using sin_enclosure[OF _ _ b] by simp
  finally show ?thesis .
qed

lemma pi_lower: "5235987755982988729 / 10000000000000000000 * 6 < pi"
proof -
  have "(5235987755982988729 / 10000000000000000000 :: real) < pi / 6"
  proof (rule ccontr)
    assume "\<not> (5235987755982988729 / 10000000000000000000 :: real) < pi / 6"
    then have le: "pi / 6 \<le> 5235987755982988729 / 10000000000000000000" by simp
    have "(5235987755982988729 / 10000000000000000000 :: real) \<le> 1" by simp
    then have "5235987755982988729 / 10000000000000000000 \<le> pi / 2" using pi_ge_two by linarith
    moreover have "- (pi / 2) \<le> pi / 6" using pi_ge_zero by linarith
    ultimately have "sin (pi / 6) \<le> sin (5235987755982988729 / 10000000000000000000)"
      using le by (intro sin_monotone_2pi_le) simp_all
    then show False using sin_below_half by (simp add: sin_30)
  qed
  then show ?thesis by simp
qed

lemma pi_upper: "pi < 1308996938995747183 / 2500000000000000000 * 6"
proof -
  have "pi / 6 < (1308996938995747183 / 2500000000000000000 :: real)"
  proof (rule ccontr)
    assume "\<not> pi / 6 < (1308996938995747183 / 2500000000000000000 :: real)"
    then have le: "1308996938995747183 / 2500000000000000000 \<le> pi / 6" by simp
    have "pi / 6 \<le> pi / 2" using pi_ge_zero by linarith
    moreover have "(0 :: real) \<le> 1308996938995747183 / 2500000000000000000" by simp
    then have "- (pi / 2) \<le> (1308996938995747183 / 2500000000000000000 :: real)" using pi_ge_zero by linarith
    ultimately have "sin (1308996938995747183 / 2500000000000000000) \<le> sin (pi / 6)"
      using le by (intro sin_monotone_2pi_le) simp_all
    then show False using sin_above_half by (simp add: sin_30)
  qed
  then show ?thesis by simp
qed

lemma Math_PI_value: "Math_PI = 884279719003555 / 281474976710656"
proof -
  have "rnd64 pi = of_int 7074237752028440 * 2 powi (1 - 52)"
  proof (rule rnd64_near)
    show "2 powi 1 \<le> \<bar>pi\<bar>" using pi_ge_two by simp
    show "\<bar>pi\<bar> < 2 powi (1 + 1)" using pi_less_4 by simp
    show "of_int 7074237752028440 - 1 / 2 < pi / 2 powi (1 - 52)"
      using pi_lower by (simp add: power_int_minus field_simps)
    show "pi / 2 powi (1 - 52) < of_int 7074237752028440 + 1 / 2"
      using pi_upper by (simp add: power_int_minus field_simps)
  qed
  then show ?thesis by (simp add: Math_PI_def power_int_minus)
qed

section \<open>Lemmas: the distance in binary64\<close>

text \<open>
  \<^verbatim>\<open>calculateDistance\<close> returns the same for a pair and the swapped pair, since rounding
  commutes with negation, and 0 for a point and itself.
\<close>

lemma calculateDistance_commute: "calculateDistance p q = calculateDistance q p"
proof -
  have lat: "double_sub (rnd64 (lat p)) (rnd64 (lat q)) = - double_sub (rnd64 (lat q)) (rnd64 (lat p))"
    by (rule double_sub_swap)
  have lng: "double_sub (rnd64 (lng p)) (rnd64 (lng q)) = - double_sub (rnd64 (lng q)) (rnd64 (lng p))"
    by (rule double_sub_swap)
  have c: "double_mul (Math_cos (toRad (rnd64 (lat q)))) (Math_cos (toRad (rnd64 (lat p)))) =
      double_mul (Math_cos (toRad (rnd64 (lat p)))) (Math_cos (toRad (rnd64 (lat q))))"
    by (rule double_mul_commute)
  show ?thesis
    unfolding calculateDistance_def Let_def lat lng c
    by (simp add: toRad_minus double_div_minus_left Math_sin_minus double_mul_minus_left
        double_mul_minus_right)
qed

lemma calculateDistance_same: "calculateDistance p p = Fin 0"
  by (simp add: calculateDistance_def Let_def double_sub_def double_add_def double_mul_def
      double_div_def toRad_def Math_sin_def Math_atan2_def atan2_def js_sqrt_def
      rnd64_zero rnd64_one)

text \<open>
  The evaluation for \<^verbatim>\<open>{lat: 82, lng: 0}\<close> and \<^verbatim>\<open>{lat: -82, lng: 180}\<close>, operation by
  operation.
\<close>

lemma degree_factor: "double_div Math_PI 180 = 5030569068109113 / 288230376151711744"
  unfolding double_div_def Math_PI_value
  using rnd64_near[of "- 6" "884279719003555 / 281474976710656 / 180" "5030569068109113"]
  by (simp add: power_int_minus)

lemma toRad_82: "toRad 82 = 6445416618514801 / 4503599627370496"
  unfolding toRad_def double_mul_def degree_factor
  using rnd64_near[of "0" "82 * (5030569068109113 / 288230376151711744)" "6445416618514801"]
  by (simp add: power_int_minus)

lemma toRad_minus_82: "toRad (- 82) = - (6445416618514801 / 4503599627370496)"
  unfolding toRad_def double_mul_def degree_factor
  using rnd64_near[of "0" "- 82 * (5030569068109113 / 288230376151711744)" "- 6445416618514801"]
  by (simp add: power_int_minus)

lemma toRad_minus_164: "toRad (- 164) = - (6445416618514801 / 2251799813685248)"
  unfolding toRad_def double_mul_def degree_factor
  using rnd64_near[of "1" "- 164 * (5030569068109113 / 288230376151711744)" "- 6445416618514801"]
  by (simp add: power_int_minus)

lemma toRad_180: "toRad 180 = 884279719003555 / 281474976710656"
  unfolding toRad_def double_mul_def degree_factor
  using rnd64_near[of "1" "180 * (5030569068109113 / 288230376151711744)" "7074237752028440"]
  by (simp add: power_int_minus)

lemma half_dLat:
  "double_div (- (6445416618514801 / 2251799813685248)) 2 =
     - (6445416618514801 / 4503599627370496)"
  unfolding double_div_def
  using rnd64_near[of "0" "- (6445416618514801 / 2251799813685248) / 2" "- 6445416618514801"]
  by (simp add: power_int_minus)

lemma half_dLng:
  "double_div (884279719003555 / 281474976710656) 2 =
     884279719003555 / 562949953421312"
  unfolding double_div_def
  using rnd64_near[of "0" "884279719003555 / 281474976710656 / 2" "7074237752028440"]
  by (simp add: power_int_minus)

lemma sin_rad82:
  "17839083621525747 / 18014398509481984 < sin (6445416618514801 / 4503599627370496 :: real) \<and>
   sin (6445416618514801 / 4503599627370496 :: real) < 17839083621525749 / 18014398509481984"
proof -
  have b: "horner_bounds ((6445416618514801 / 4503599627370496) * (6445416618514801 / 4503599627370496)) sin_divisors =
      (691929035676376352092699663967 / 1000000000000000000000000000000, 21622782364886761002896864499 / 31250000000000000000000000000)"
    by (simp add: sin_divisors_def down30_def up30_def)
  have "6445416618514801 / 4503599627370496 * (691929035676376352092699663967 / 1000000000000000000000000000000) - 1 / 10 ^ 20 \<le> sin (6445416618514801 / 4503599627370496 :: real) \<and>
      sin (6445416618514801 / 4503599627370496 :: real) \<le> 6445416618514801 / 4503599627370496 * (21622782364886761002896864499 / 31250000000000000000000000000) + 1 / 10 ^ 20"
    by (rule sin_enclosure[OF _ _ b]) simp_all
  moreover have "(17839083621525747 / 18014398509481984 :: real) < 6445416618514801 / 4503599627370496 * (691929035676376352092699663967 / 1000000000000000000000000000000) - 1 / 10 ^ 20"
    by simp
  moreover have "6445416618514801 / 4503599627370496 * (21622782364886761002896864499 / 31250000000000000000000000000) + 1 / 10 ^ 20 < (17839083621525749 / 18014398509481984 :: real)"
    by simp
  ultimately show ?thesis by linarith
qed

lemma Math_sin_minus_rad82: "Math_sin (- (6445416618514801 / 4503599627370496)) = - (4459770905381437 / 4503599627370496)"
proof -
  have "rnd64 (- sin (6445416618514801 / 4503599627370496 :: real)) = of_int (- 8919541810762874) * 2 powi (- 1 - 52)"
    using sin_rad82 by (intro rnd64_near) (simp_all add: power_int_minus field_simps)
  then show ?thesis by (simp add: Math_sin_def power_int_minus)
qed

lemma cos_rad82:
  "10028478809979955 / 72057594037927936 < cos (6445416618514801 / 4503599627370496 :: real) \<and>
   cos (6445416618514801 / 4503599627370496 :: real) < 10028478809979957 / 72057594037927936"
proof -
  have b: "horner_bounds ((6445416618514801 / 4503599627370496) * (6445416618514801 / 4503599627370496)) cos_divisors =
      (4349159405002046091485315657 / 31250000000000000000000000000, 69586550480032737463765050513 / 500000000000000000000000000000)"
    by (simp add: cos_divisors_def down30_def up30_def)
  have "4349159405002046091485315657 / 31250000000000000000000000000 - 1 / 10 ^ 20 \<le> cos (6445416618514801 / 4503599627370496 :: real) \<and>
      cos (6445416618514801 / 4503599627370496 :: real) \<le> 69586550480032737463765050513 / 500000000000000000000000000000 + 1 / 10 ^ 20"
    by (rule cos_enclosure[OF _ _ b]) simp_all
  moreover have "(10028478809979955 / 72057594037927936 :: real) < 4349159405002046091485315657 / 31250000000000000000000000000 - 1 / 10 ^ 20"
    by simp
  moreover have "69586550480032737463765050513 / 500000000000000000000000000000 + 1 / 10 ^ 20 < (10028478809979957 / 72057594037927936 :: real)"
    by simp
  ultimately show ?thesis by linarith
qed

lemma Math_cos_rad82: "Math_cos (6445416618514801 / 4503599627370496) = 2507119702494989 / 18014398509481984"
proof -
  have "rnd64 (cos (6445416618514801 / 4503599627370496 :: real)) = of_int 5014239404989978 * 2 powi (- 3 - 52)"
    using cos_rad82 by (intro rnd64_near) (simp_all add: power_int_minus field_simps)
  then show ?thesis by (simp add: Math_cos_def power_int_minus)
qed

lemma Math_cos_minus_rad82: "Math_cos (- (6445416618514801 / 4503599627370496)) = 2507119702494989 / 18014398509481984"
  using Math_cos_rad82 by (simp add: Math_cos_def)

lemma sin_half_PI: "1 - 1 / 2 ^ 54 < sin (884279719003555 / 562949953421312 :: real)"
proof -
  have b: "horner_bounds ((884279719003555 / 562949953421312) * (884279719003555 / 562949953421312)) sin_divisors =
      (25464790894703254715551860079 / 40000000000000000000000000000, 636619772367581367888796501977 / 1000000000000000000000000000000)"
    by (simp add: sin_divisors_def down30_def up30_def)
  have "884279719003555 / 562949953421312 * (25464790894703254715551860079 / 40000000000000000000000000000) - 1 / 10 ^ 20 \<le> sin (884279719003555 / 562949953421312 :: real) \<and>
      sin (884279719003555 / 562949953421312 :: real) \<le> 884279719003555 / 562949953421312 * (636619772367581367888796501977 / 1000000000000000000000000000000) + 1 / 10 ^ 20"
    by (rule sin_enclosure[OF _ _ b]) simp_all
  moreover have "(1 - 1 / 2 ^ 54 :: real) < 884279719003555 / 562949953421312 * (25464790894703254715551860079 / 40000000000000000000000000000) - 1 / 10 ^ 20"
    by simp
  ultimately show ?thesis by linarith
qed

lemma Math_sin_half_PI: "Math_sin (884279719003555 / 562949953421312) = 1"
proof (cases "sin (884279719003555 / 562949953421312 :: real) = 1")
  case True
  then show ?thesis by (simp add: Math_sin_def rnd64_one)
next
  case False
  then have lt: "sin (884279719003555 / 562949953421312 :: real) < 1"
    using sin_le_one[of "884279719003555 / 562949953421312 :: real"] by linarith
  have "rnd64 (sin (884279719003555 / 562949953421312 :: real)) = of_int 9007199254740992 * 2 powi (- 1 - 52)"
    using sin_half_PI lt by (intro rnd64_near) (simp_all add: power_int_minus field_simps)
  then show ?thesis by (simp add: Math_sin_def power_int_minus)
qed

lemma sin_dLat_squared:
  "double_mul (- (4459770905381437 / 4503599627370496)) (- (4459770905381437 / 4503599627370496)) =
     8832737443003841 / 9007199254740992"
  unfolding double_mul_def
  using rnd64_near[of "- 1" "- (4459770905381437 / 4503599627370496) * - (4459770905381437 / 4503599627370496)" "8832737443003841"]
  by (simp add: power_int_minus)

lemma cos_lat_product:
  "double_mul (2507119702494989 / 18014398509481984) (2507119702494989 / 18014398509481984) =
     2791388987794435 / 144115188075855872"
  unfolding double_mul_def
  using rnd64_near[of "- 6" "2507119702494989 / 18014398509481984 * (2507119702494989 / 18014398509481984)" "5582777975588870"]
  by (simp add: power_int_minus)

lemma cos_lat_product_one:
  "double_mul (2791388987794435 / 144115188075855872) 1 = 2791388987794435 / 144115188075855872"
  unfolding double_mul_def
  using rnd64_near[of "- 6" "2791388987794435 / 144115188075855872 * 1" "5582777975588870"]
  by (simp add: power_int_minus)

lemma haversine_sum:
  "double_add (8832737443003841 / 9007199254740992) (2791388987794435 / 144115188075855872) =
     4503599627370497 / 4503599627370496"
  unfolding double_add_def
  using rnd64_near[of "0" "8832737443003841 / 9007199254740992 + 2791388987794435 / 144115188075855872" "4503599627370497"]
  by (simp add: power_int_minus)

lemma one_minus_haversine_sum: "double_sub 1 (4503599627370497 / 4503599627370496) = - (1 / 4503599627370496)"
  unfolding double_sub_def
  using rnd64_near[of "- 52" "1 - 4503599627370497 / 4503599627370496" "- 4503599627370496"]
  by (simp add: power_int_minus)

section \<open>Lemmas: the scenario in binary64\<close>

text \<open>
  The products of \<^verbatim>\<open>calculateElectricity\<close> and the sum of \<^verbatim>\<open>calculateFossilPercent\<close> for the
  image workload in Arizona at hour 15, carried out in binary64 in the order of the
  source: the results are the doubles printed as \<^verbatim>\<open>0.29000000000000004\<close>,
  \<^verbatim>\<open>0.6090000000000001\<close> and \<^verbatim>\<open>44.99999999999999\<close>.
\<close>

lemma double_0_029: "rnd64 0.029 = 8358680908399641 / 288230376151711744"
  using rnd64_near[of "- 6" "0.029" "8358680908399641"]
  by (simp add: power_int_minus)

lemma double_1_25: "rnd64 1.25 = 5 / 4"
  using rnd64_near[of "0" "1.25" "5629499534213120"]
  by (simp add: power_int_minus)

lemma double_1_4: "rnd64 1.4 = 3152519739159347 / 2251799813685248"
  using rnd64_near[of "0" "1.4" "6305039478318694"]
  by (simp add: power_int_minus)

lemma double_1_2: "rnd64 1.2 = 5404319552844595 / 4503599627370496"
  using rnd64_near[of "0" "1.2" "5404319552844595"]
  by (simp add: power_int_minus)

lemma double_0_35: "rnd64 0.35 = 3152519739159347 / 9007199254740992"
  using rnd64_near[of "- 2" "0.35" "6305039478318694"]
  by (simp add: power_int_minus)

lemma double_0_10: "rnd64 0.10 = 3602879701896397 / 36028797018963968"
  using rnd64_near[of "- 4" "0.10" "7205759403792794"]
  by (simp add: power_int_minus)

lemma rnd64_10: "rnd64 10 = 10"
  using rnd64_near[of "3" "10" "5629499534213120"]
  by (simp add: power_int_minus)

lemma rnd64_100: "rnd64 100 = 100"
  using rnd64_near[of "6" "100" "7036874417766400"]
  by (simp add: power_int_minus)

lemma scenario_baseKwh_double:
  "double_mul 10 (8358680908399641 / 288230376151711744) =
     326510972984361 / 1125899906842624"
  unfolding double_mul_def
  using rnd64_near[of "- 2" "10 * (8358680908399641 / 288230376151711744)" "5224175567749776"]
  by (simp add: power_int_minus)

lemma scenario_withPue_double:
  "double_mul (326510972984361 / 1125899906842624) (5 / 4) =
     1632554864921805 / 4503599627370496"
  unfolding double_mul_def
  using rnd64_near[of "- 2" "326510972984361 / 1125899906842624 * (5 / 4)" "6530219459687220"]
  by (simp add: power_int_minus)

lemma scenario_withHeat_double:
  "double_mul (1632554864921805 / 4503599627370496) (3152519739159347 / 2251799813685248) =
     2285576810890527 / 4503599627370496"
  unfolding double_mul_def
  using rnd64_near[of "- 1" "1632554864921805 / 4503599627370496 * (3152519739159347 / 2251799813685248)" "4571153621781054"]
  by (simp add: power_int_minus)

lemma scenario_final_double:
  "double_mul (2285576810890527 / 4503599627370496) (5404319552844595 / 4503599627370496) =
     5485384346137265 / 9007199254740992"
  unfolding double_mul_def
  using rnd64_near[of "- 1" "2285576810890527 / 4503599627370496 * (5404319552844595 / 4503599627370496)" "5485384346137265"]
  by (simp add: power_int_minus)

lemma scenario_fossilTotal_first:
  "double_add 0 (3152519739159347 / 9007199254740992) =
     3152519739159347 / 9007199254740992"
  unfolding double_add_def
  using rnd64_near[of "- 2" "0 + 3152519739159347 / 9007199254740992" "6305039478318694"]
  by (simp add: power_int_minus)

lemma scenario_fossilTotal_double:
  "double_add (3152519739159347 / 9007199254740992) (3602879701896397 / 36028797018963968) =
     2026619832316723 / 4503599627370496"
  unfolding double_add_def
  using rnd64_tie[of "- 2" "3152519739159347 / 9007199254740992 + 3602879701896397 / 36028797018963968" "8106479329266892"]
  by (simp add: power_int_minus)

lemma scenario_fossilPercent_double:
  "double_mul (2026619832316723 / 4503599627370496) 100 =
     6333186975989759 / 140737488355328"
  unfolding double_mul_def
  using rnd64_near[of "5" "2026619832316723 / 4503599627370496 * 100" "6333186975989759"]
  by (simp add: power_int_minus)

lemma scenario_binary64:
  "double_mul (double_mul (double_mul (double_mul (rnd64 10) (rnd64 0.029)) (rnd64 1.25)) (rnd64 1.4))
     (rnd64 1.2) = 5485384346137265 / 9007199254740992 \<and>
   double_mul (rnd64 10) (rnd64 0.029) = 326510972984361 / 1125899906842624 \<and>
   double_mul (double_add (double_add 0 (rnd64 0.35)) (rnd64 0.10)) (rnd64 100) = 6333186975989759 / 140737488355328"
  by (simp only: rnd64_10 rnd64_100 double_0_029 double_1_25 double_1_4 double_1_2 double_0_35 double_0_10
      scenario_baseKwh_double scenario_withPue_double scenario_withHeat_double scenario_final_double
      scenario_fossilTotal_first scenario_fossilTotal_double scenario_fossilPercent_double simp_thms)

lemma scenario_binary64_rounding:
  "(326510972984361 / 1125899906842624 :: real) \<noteq> 0.29 \<and> \<bar>326510972984361 / 1125899906842624 - 0.29\<bar> \<le> (1 / 10 ^ 15 :: real) \<and>
   (5485384346137265 / 9007199254740992 :: real) \<noteq> 0.609 \<and> \<bar>5485384346137265 / 9007199254740992 - 0.609\<bar> \<le> (1 / 10 ^ 15 :: real) \<and>
   (6333186975989759 / 140737488355328 :: real) \<noteq> 45 \<and> \<bar>6333186975989759 / 140737488355328 - 45\<bar> \<le> (1 / 10 ^ 13 :: real)"
  by simp

section \<open>Configuration\<close>

text \<open>
  Claim C1 says that \<^verbatim>\<open>configure\<close> with an identifier that is not a key of its
  reference table leaves the selection as it was. The engine does look the identifier
  up and stores the result: with Phoenix selected, configuring the city
  \<^verbatim>\<open>'atlantis'\<close> leaves the city \<^verbatim>\<open>undefined\<close>.
\<close>

theorem configure_unknown_city_counterexample:
  "''atlantis'' \<notin> fst ` set CITIES \<and>
   currentCity (configure \<lparr>arg_city = Some ''atlantis'', arg_workload = None,
                            arg_datacenter = None, arg_hour = None\<rparr>
                  (constructor\<lparr>currentCity := lookup CITIES ''phoenix''\<rparr>))
     \<noteq> currentCity (constructor\<lparr>currentCity := lookup CITIES ''phoenix''\<rparr>)"
  by (simp add: configure_def lookup_def CITIES_def constructor_def object_prototype_names_def)

text \<open>
  Claim C1, amended: \<^verbatim>\<open>configure\<close> raises no error (it is a total function of the
  state); called with a non-empty identifier that is not a key of the table, it
  replaces that selection by the result of the lookup, which is \<^verbatim>\<open>undefined\<close> (or, for
  a name such as \<^verbatim>\<open>'constructor'\<close>, the property inherited from \<^verbatim>\<open>Object.prototype\<close>), and
  leaves the other two selections and the hour as they were. Only an absent or empty
  identifier leaves the selection unchanged.
\<close>

theorem configure_unknown_identifier:
  "(k \<noteq> [] \<and> k \<notin> fst ` set CITIES \<longrightarrow>
      configure \<lparr>arg_city = Some k, arg_workload = None, arg_datacenter = None, arg_hour = None\<rparr> s
        = s\<lparr>currentCity := (if k \<in> set object_prototype_names then Inherited k else Undefined)\<rparr>) \<and>
   (k \<noteq> [] \<and> k \<notin> fst ` set WORKLOADS \<longrightarrow>
      configure \<lparr>arg_city = None, arg_workload = Some k, arg_datacenter = None, arg_hour = None\<rparr> s
        = s\<lparr>currentWorkload := (if k \<in> set object_prototype_names then Inherited k else Undefined)\<rparr>) \<and>
   (k \<noteq> [] \<and> k \<notin> fst ` set DATACENTERS \<longrightarrow>
      configure \<lparr>arg_city = None, arg_workload = None, arg_datacenter = Some k, arg_hour = None\<rparr> s
        = s\<lparr>currentDatacenter := (if k \<in> set object_prototype_names then Inherited k else Undefined)\<rparr>) \<and>
   configure \<lparr>arg_city = Some [], arg_workload = Some [], arg_datacenter = Some [], arg_hour = None\<rparr> s = s \<and>
   configure \<lparr>arg_city = None, arg_workload = None, arg_datacenter = None, arg_hour = None\<rparr> s = s"
  by (simp add: configure_def lookup_unknown)

theorem configure_unknown_identifier_witness:
  "''atlantis'' \<noteq> [] \<and> ''atlantis'' \<notin> fst ` set CITIES \<and>
   ''atlantis'' \<notin> fst ` set WORKLOADS \<and> ''atlantis'' \<notin> fst ` set DATACENTERS \<and>
   configure \<lparr>arg_city = Some ''atlantis'', arg_workload = None, arg_datacenter = None,
               arg_hour = None\<rparr> phoenix_image_arizona_15
     = phoenix_image_arizona_15\<lparr>currentCity := Undefined\<rparr> \<and>
   configure \<lparr>arg_city = None, arg_workload = Some ''atlantis'', arg_datacenter = None,
               arg_hour = None\<rparr> phoenix_image_arizona_15
     = phoenix_image_arizona_15\<lparr>currentWorkload := Undefined\<rparr> \<and>
   configure \<lparr>arg_city = None, arg_workload = None, arg_datacenter = Some ''atlantis'',
               arg_hour = None\<rparr> phoenix_image_arizona_15
     = phoenix_image_arizona_15\<lparr>currentDatacenter := Undefined\<rparr>"
  using configure_unknown_identifier[of "''atlantis''" phoenix_image_arizona_15]
  by (simp add: CITIES_def WORKLOADS_def DATACENTERS_def object_prototype_names_def)

text \<open>
  Claim C8 says that the hour stored by \<^verbatim>\<open>configure\<close> is clamped or validated to the
  range from 0 to 23. The engine stores the hour it is given: after
  \<^verbatim>\<open>configure({ hour: 24 })\<close> the hour is 24, and index 24 is out of range in each of
  the three sequences.
\<close>

theorem configure_hour_counterexample:
  "currentHour (configure \<lparr>arg_city = None, arg_workload = None, arg_datacenter = None,
                            arg_hour = Some 24\<rparr> constructor) = 24 \<and>
   nth_opt waterUsageByHour 24 = None \<and> nth_opt carbonIntensityByHour 24 = None \<and>
   nth_opt demandByHour 24 = None"
  by (simp add: configure_def nth_opt_def waterUsageByHour_def
      carbonIntensityByHour_def demandByHour_def)

text \<open>
  Claim C8, amended: \<^verbatim>\<open>configure\<close> stores the hour it is given, unchanged; each of the
  three sequences has 24 entries, so reading it at the stored hour is in range exactly
  when the hour passed was between 0 and 23.
\<close>

theorem configure_hour_stored:
  "arg_hour a = Some h \<Longrightarrow>
   currentHour (configure a s) = h \<and>
   length waterUsageByHour = 24 \<and> length carbonIntensityByHour = 24 \<and>
   length demandByHour = 24 \<and>
   ((\<exists>m. nth_opt waterUsageByHour (currentHour (configure a s)) = Some m) = (0 \<le> h \<and> h < 24)) \<and>
   ((\<exists>m. nth_opt carbonIntensityByHour (currentHour (configure a s)) = Some m) = (0 \<le> h \<and> h < 24)) \<and>
   ((\<exists>m. nth_opt demandByHour (currentHour (configure a s)) = Some m) = (0 \<le> h \<and> h < 24))"
  by (simp add: configure_def Let_def nth_opt_defined waterUsageByHour_def
      carbonIntensityByHour_def demandByHour_def split: option.splits)

theorem configure_hour_stored_witness:
  "currentHour (configure \<lparr>arg_city = None, arg_workload = None, arg_datacenter = None,
                            arg_hour = Some 23\<rparr> constructor) = 23 \<and>
   (\<exists>m. nth_opt demandByHour
          (currentHour (configure \<lparr>arg_city = None, arg_workload = None,
                                    arg_datacenter = None, arg_hour = Some 23\<rparr> constructor))
        = Some m)"
  using configure_hour_stored[of "\<lparr>arg_city = None, arg_workload = None, arg_datacenter = None,
                            arg_hour = Some 23\<rparr>" 23 constructor]
  by auto

section \<open>Unset selections\<close>

text \<open>
  Claim C2 says that every calculation returns \<^verbatim>\<open>null\<close> without throwing when a
  selection it needs is unset, \<^verbatim>\<open>calculateEmissions\<close> in particular when the datacenter
  is set and the workload is not. On the engine as constructed and configured with the
  datacenter \<^verbatim>\<open>'arizona'\<close> only, \<^verbatim>\<open>calculateElectricity\<close> and \<^verbatim>\<open>calculateWater\<close> return
  \<^verbatim>\<open>null\<close> and \<^verbatim>\<open>runSimulation\<close> raises its configuration error, but
  \<^verbatim>\<open>calculateEmissions\<close> raises a \<^verbatim>\<open>TypeError\<close>.
\<close>

theorem calculateEmissions_throws_without_workload:
  "calculateElectricity
     (configure \<lparr>arg_city = None, arg_workload = None, arg_datacenter = Some ''arizona'',
                 arg_hour = None\<rparr> constructor) = Inr None \<and>
   calculateWater
     (configure \<lparr>arg_city = None, arg_workload = None, arg_datacenter = Some ''arizona'',
                 arg_hour = None\<rparr> constructor) = Inr None \<and>
   calculateEmissions
     (configure \<lparr>arg_city = None, arg_workload = None, arg_datacenter = Some ''arizona'',
                 arg_hour = None\<rparr> constructor) = Inl TypeError \<and>
   runSimulation
     (configure \<lparr>arg_city = None, arg_workload = None, arg_datacenter = Some ''arizona'',
                 arg_hour = None\<rparr> constructor) = Inl (Error ''Simulation not fully configured'')"
  by (simp add: configure_def constructor_def lookup_def DATACENTERS_def
      calculateElectricity_def calculateWater_def calculateEmissions_def runSimulation_def)

theorem calculateEmissions_throws_without_workload_witness:
  "calculateEmissions
     \<lparr>currentCity = Null, currentWorkload = Null, currentDatacenter = Obj arizona,
      currentHour = 14\<rparr> = Inl TypeError"
  using calculateEmissions_throws_without_workload
  by (simp add: configure_def constructor_def lookup_def DATACENTERS_def)

section \<open>Electricity and water\<close>

text \<open>
  Claim C3: for every workload of the table, every datacenter and every hour from 0 to
  23, \<^verbatim>\<open>calculateElectricity\<close> returns the base energy of the workload's kind (queries
  times energy per query, images times energy per image, or the flat energy per hour)
  and, as the energy with overhead, that base multiplied by the PUE, then by the heat
  penalty, then by the demand modifier of the hour. For the image workload in Arizona at
  hour 15 the base is 0.29, the energy with overhead is 0.609 and the fossil share is 45
  percent, each up to rounding: within \<open>1 / 10 ^ 12\<close>, both for the result of the model
  and for the same operations carried out on doubles in the order of the source, where
  none of the three values is met exactly.
\<close>

theorem calculateElectricity_formula:
  "(\<forall>wid w d s. (wid, w) \<in> set WORKLOADS \<and> currentWorkload s = Obj w \<and>
       currentDatacenter s = Obj d \<and> 0 \<le> currentHour s \<and> currentHour s < 24 \<longrightarrow>
     (\<exists>el. calculateElectricity s = Inr (Some el) \<and> baseKwh el = Fin (spec_baseKwh w) \<and>
        withOverhead el = Fin (spec_baseKwh w * pue (energy d) * heatPenalty (climate d) *
                                demandByHour ! nat (currentHour s)))) \<and>
   (\<exists>el b wo. calculateElectricity phoenix_image_arizona_15 = Inr (Some el) \<and>
      baseKwh el = Fin b \<and> \<bar>b - 0.29\<bar> \<le> 1 / 10 ^ 12 \<and>
      withOverhead el = Fin wo \<and> \<bar>wo - 0.609\<bar> \<le> 1 / 10 ^ 12 \<and>
      \<bar>fossilPercent el - 45\<bar> \<le> 1 / 10 ^ 12) \<and>
   \<bar>double_mul (rnd64 10) (rnd64 0.029) - 0.29\<bar> \<le> 1 / 10 ^ 12 \<and>
   \<bar>double_mul (double_mul (double_mul (double_mul (rnd64 10) (rnd64 0.029)) (rnd64 1.25))
       (rnd64 1.4)) (rnd64 1.2) - 0.609\<bar> \<le> 1 / 10 ^ 12 \<and>
   \<bar>double_mul (double_add (double_add 0 (rnd64 0.35)) (rnd64 0.10)) (rnd64 100) - 45\<bar>
     \<le> 1 / 10 ^ 12"
proof (intro conjI allI impI)
  fix wid and w :: workload and d :: datacenter and s :: engine
  assume "(wid, w) \<in> set WORKLOADS \<and> currentWorkload s = Obj w \<and>
       currentDatacenter s = Obj d \<and> 0 \<le> currentHour s \<and> currentHour s < 24"
  then show "\<exists>el. calculateElectricity s = Inr (Some el) \<and> baseKwh el = Fin (spec_baseKwh w) \<and>
        withOverhead el = Fin (spec_baseKwh w * pue (energy d) * heatPenalty (climate d) *
                                demandByHour ! nat (currentHour s))"
    using withOverhead_table[of wid w s d] by blast
next
  have "\<exists>el. calculateElectricity phoenix_image_arizona_15 = Inr (Some el) \<and>
      baseKwh el = Fin 0.29 \<and> withOverhead el = Fin 0.609 \<and> fossilPercent el = 45"
    by (simp add: scenario_state calculateElectricity_def Let_def image_workload_def
        arizona_def switch_baseKwh_def session_field_def tonum_def nth_opt_def
        demandByHour_def calculateFossilPercent_def fossilSources_def)
  then obtain el where el: "calculateElectricity phoenix_image_arizona_15 = Inr (Some el)"
      "baseKwh el = Fin 0.29" "withOverhead el = Fin 0.609" "fossilPercent el = 45"
    by blast
  show "\<exists>el b wo. calculateElectricity phoenix_image_arizona_15 = Inr (Some el) \<and>
      baseKwh el = Fin b \<and> \<bar>b - 0.29\<bar> \<le> 1 / 10 ^ 12 \<and>
      withOverhead el = Fin wo \<and> \<bar>wo - 0.609\<bar> \<le> 1 / 10 ^ 12 \<and>
      \<bar>fossilPercent el - 45\<bar> \<le> 1 / 10 ^ 12"
    by (rule exI[of _ el], rule exI[of _ "0.29"], rule exI[of _ "0.609"]) (simp add: el)
next
  show "\<bar>double_mul (rnd64 10) (rnd64 0.029) - 0.29\<bar> \<le> 1 / 10 ^ 12"
    using scenario_binary64 by simp
next
  show "\<bar>double_mul (double_mul (double_mul (double_mul (rnd64 10) (rnd64 0.029)) (rnd64 1.25))
       (rnd64 1.4)) (rnd64 1.2) - 0.609\<bar> \<le> 1 / 10 ^ 12"
    using scenario_binary64 by simp
next
  show "\<bar>double_mul (double_add (double_add 0 (rnd64 0.35)) (rnd64 0.10)) (rnd64 100) - 45\<bar>
     \<le> 1 / 10 ^ 12"
    using scenario_binary64 by simp
qed

theorem calculateElectricity_formula_witness:
  "(''chatbot'', chatbot) \<in> set WORKLOADS \<and>
   (\<exists>el. calculateElectricity
           \<lparr>currentCity = Null, currentWorkload = Obj chatbot,
            currentDatacenter = Obj ireland, currentHour = 10\<rparr> = Inr (Some el) \<and>
      baseKwh el = Fin (25 * 0.0029) \<and>
      withOverhead el = Fin (25 * 0.0029 * 1.15 * 1.0 * 1.15))"
proof -
  have h: "(''chatbot'', chatbot) \<in> set WORKLOADS" by (simp add: WORKLOADS_def)
  show ?thesis
    using h calculateElectricity_formula[THEN conjunct1, rule_format,
        of "''chatbot''" chatbot "\<lparr>currentCity = Null, currentWorkload = Obj chatbot,
            currentDatacenter = Obj ireland, currentHour = 10\<rparr>" ireland]
    by (simp add: spec_baseKwh_def session_metric_def chatbot_def ireland_def demandByHour_def)
qed

text \<open>
  Claim C7: for every workload of the table, every datacenter and every hour from 0 to
  23, \<^verbatim>\<open>calculateWater\<close> returns as liters the electricity with overhead multiplied by
  the datacenter's WUE and by the water-usage modifier of the hour; so the liters are 0
  for every datacenter whose WUE is 0, and the WUE of the Finland datacenter is 0.
\<close>

theorem calculateWater_formula:
  "(\<forall>wid w d s. (wid, w) \<in> set WORKLOADS \<and> currentWorkload s = Obj w \<and>
       currentDatacenter s = Obj d \<and> 0 \<le> currentHour s \<and> currentHour s < 24 \<longrightarrow>
     (\<exists>el x wa. calculateElectricity s = Inr (Some el) \<and> withOverhead el = Fin x \<and>
        calculateWater s = Inr (Some wa) \<and>
        liters wa = js_mul (js_mul (withOverhead el) (Fin (wue (water d))))
                      (Fin (waterUsageByHour ! nat (currentHour s))) \<and>
        liters wa = Fin (x * wue (water d) * waterUsageByHour ! nat (currentHour s)) \<and>
        (wue (water d) = 0 \<longrightarrow> liters wa = Fin 0))) \<and>
   wue (water finland) = 0"
proof (intro conjI allI impI)
  fix wid and w :: workload and d :: datacenter and s :: engine
  assume a: "(wid, w) \<in> set WORKLOADS \<and> currentWorkload s = Obj w \<and>
       currentDatacenter s = Obj d \<and> 0 \<le> currentHour s \<and> currentHour s < 24"
  then obtain el x wa where
    "calculateElectricity s = Inr (Some el)" "withOverhead el = Fin x"
    "calculateWater s = Inr (Some wa)"
    "liters wa = js_mul (js_mul (withOverhead el) (Fin (wue (water d))))
                      (Fin (waterUsageByHour ! nat (currentHour s)))"
    "liters wa = Fin (x * wue (water d) * waterUsageByHour ! nat (currentHour s))"
    using liters_table[of wid w s d] by blast
  then show "\<exists>el x wa. calculateElectricity s = Inr (Some el) \<and> withOverhead el = Fin x \<and>
        calculateWater s = Inr (Some wa) \<and>
        liters wa = js_mul (js_mul (withOverhead el) (Fin (wue (water d))))
                      (Fin (waterUsageByHour ! nat (currentHour s))) \<and>
        liters wa = Fin (x * wue (water d) * waterUsageByHour ! nat (currentHour s)) \<and>
        (wue (water d) = 0 \<longrightarrow> liters wa = Fin 0)"
    by auto
next
  show "wue (water finland) = 0" by (simp add: finland_def)
qed

theorem calculateWater_formula_witness:
  "(''biometric'', biometric) \<in> set WORKLOADS \<and>
   (\<exists>wa. calculateWater
          \<lparr>currentCity = Null, currentWorkload = Obj biometric,
           currentDatacenter = Obj finland, currentHour = 13\<rparr> = Inr (Some wa) \<and>
        liters wa = Fin 0)"
proof -
  have h: "(''biometric'', biometric) \<in> set WORKLOADS" by (simp add: WORKLOADS_def)
  have z: "wue (water finland) = 0" by (simp add: finland_def)
  show ?thesis
    using h z calculateWater_formula[THEN conjunct1, rule_format,
        of "''biometric''" biometric "\<lparr>currentCity = Null, currentWorkload = Obj biometric,
           currentDatacenter = Obj finland, currentHour = 13\<rparr>" finland]
    by auto
qed


section \<open>Distance\<close>

text \<open>
  Claim C9: for all pairs of coordinates, \<^verbatim>\<open>calculateDistance\<close> is symmetric, is 0 from
  a point to itself, and lies between 0 and about 20015 km. The first two parts hold
  (lemmas \<open>calculateDistance_commute\<close> and \<open>calculateDistance_same\<close>: the two calls
  return the same number or are both \<^verbatim>\<open>NaN\<close>). The last part fails: for
  \<^verbatim>\<open>{lat: 82, lng: 0}\<close> and \<^verbatim>\<open>{lat: -82, lng: 180}\<close>, two points near the antipodes of one
  another, \<^verbatim>\<open>a\<close> is rounded to \<open>1 + 1 / 2 ^ 52\<close>, the square root of \<^verbatim>\<open>1 - a\<close> is \<^verbatim>\<open>NaN\<close>,
  and the result is \<^verbatim>\<open>NaN\<close> in either order, which is no distance between 0 and 20016.
\<close>

theorem calculateDistance_not_a_number:
  "calculateDistance \<lparr>lat = 82, lng = 0\<rparr> \<lparr>lat = - 82, lng = 180\<rparr> = NaN \<and>
   calculateDistance \<lparr>lat = - 82, lng = 180\<rparr> \<lparr>lat = 82, lng = 0\<rparr> = NaN"
proof -
  have "calculateDistance \<lparr>lat = 82, lng = 0\<rparr> \<lparr>lat = - 82, lng = 180\<rparr> = NaN"
    by (simp add: calculateDistance_def Let_def double_sub_def[of "- 82" 82] double_sub_def[of 180 0]
        rnd64_zero rnd64_82 rnd64_minus_82 rnd64_180 rnd64_minus_164
        toRad_82 toRad_minus_82 toRad_minus_164 toRad_180 half_dLat half_dLng
        Math_sin_minus_rad82 Math_cos_rad82 Math_cos_minus_rad82 Math_sin_half_PI
        sin_dLat_squared cos_lat_product cos_lat_product_one haversine_sum one_minus_haversine_sum
        js_sqrt_def)
  then show ?thesis
    using calculateDistance_commute[of "\<lparr>lat = 82, lng = 0\<rparr>" "\<lparr>lat = - 82, lng = 180\<rparr>"]
    by simp
qed

theorem calculateDistance_not_a_number_witness:
  "\<not> (\<exists>km. calculateDistance \<lparr>lat = 82, lng = 0\<rparr> \<lparr>lat = - 82, lng = 180\<rparr> = Fin km \<and>
          0 \<le> km \<and> km \<le> 20016)"
  using calculateDistance_not_a_number by simp

section \<open>The flow list\<close>

text \<open>
  Claim C4: for every simulation configured with a city, a workload of the table, a
  datacenter of the table and an hour from 0 to 23, \<^verbatim>\<open>runSimulation\<close> returns, and its
  flow list is the specification's, in its order: the data flow with intensity 1, one
  electricity flow per power source with the grid-mix share of its type or 0.1, the
  water flow if and only if the liters are positive, with intensity
  \<open>min (liters / 10) 1\<close>, one emissions flow per drift destination with intensity
  \<open>min (grams / 500) 1\<close>, the four supply flows with intensity 0.5 and two e-waste flows
  with intensity 0.3; every intensity lies between 0 and 1.
\<close>

theorem generateFlows_order_and_intensities:
  assumes c: "currentCity s = Obj c"
    and wt: "(wid, w) \<in> set WORKLOADS" and w: "currentWorkload s = Obj w"
    and dt: "(did, d) \<in> set DATACENTERS" and d: "currentDatacenter s = Obj d"
    and h0: "0 \<le> currentHour s" and h1: "currentHour s < 24"
  shows "\<exists>r L g. runSimulation s = Inr r \<and>
     liters (sim_water r) = Fin L \<and> grams (emissions r) = Fin g \<and>
     map flow_edge (flows r) = spec_flows c d L g \<and>
     (\<forall>f\<in>set (flows r). \<exists>x. intensity f = Fin x \<and> 0 \<le> x \<and> x \<le> 1) \<and>
     length (flows r) =
       1 + length (sources (energy d)) + (if 0 < L then 1 else 0) + 2 + 4 + 2"
proof -
  obtain r where r: "runSimulation s = Inr r"
    and rel: "calculateElectricity s = Inr (Some (electricity r))"
    and rwa: "calculateWater s = Inr (Some (sim_water r))"
    and rem: "calculateEmissions s = Inr (Some (emissions r))"
    and rfl: "generateFlows c d (electricity r) (sim_water r) (emissions r) getMaterials
              = Inr (flows r)"
    using runSimulation_configured[OF c _ d dt] w by auto
  define x where "x = spec_baseKwh w * pue (energy d) * heatPenalty (climate d) *
                       demandByHour ! nat (currentHour s)"
  have x0: "0 \<le> x"
    unfolding x_def by (rule overhead_nonneg[OF wt dt h0 h1])
  have src: "el_sources (electricity r) = sources (energy d)"
    using withOverhead_table[OF wt w d h0 h1] rel by auto
  have lit: "liters (sim_water r) = Fin (x * wue (water d) * waterUsageByHour ! nat (currentHour s))"
    and wsc: "wr_sourceCoords (sim_water r) = sourceCoords (water d)"
    using liters_table[OF wt w d h0 h1] withOverhead_table[OF wt w d h0 h1] rel rwa
    by (auto simp: x_def)
  have gr: "grams (emissions r) = Fin (x * (carbonIntensity (energy d) *
                           carbonIntensityByHour ! nat (currentHour s)))"
    and dr: "drift (emissions r) = lookup EMISSIONS_DRIFT (dc_id d)"
    using grams_table[OF wt w d h0 h1] withOverhead_table[OF wt w d h0 h1] rel rem
    by (auto simp: x_def)
  define L where "L = x * wue (water d) * waterUsageByHour ! nat (currentHour s)"
  define g where "g = x * (carbonIntensity (energy d) *
                           carbonIntensityByHour ! nat (currentHour s))"
  have L0: "0 \<le> L"
    unfolding L_def
    using x0 datacenter_factors_nonneg[OF dt] water_nonneg[OF h0 h1] by simp
  have g0: "0 \<le> g"
    unfolding g_def
    using x0 datacenter_factors_nonneg[OF dt] carbon_nonneg[OF h0 h1] by simp
  obtain dr' y ys where m: "map_of EMISSIONS_DRIFT (dc_id d) = Some dr'"
    and l: "lookup EMISSIONS_DRIFT (dc_id d) = Obj dr'"
    and ds: "destinations dr' = y # ys" "length ys = 1"
    using drift_of_table_datacenter[OF dt] by blast
  have fl: "flows r =
      [data_flow c d] @ map (electricity_flow d) (sources (energy d)) @
      (if 0 < L then [water_flow d (sim_water r)] else []) @
      map (emissions_flow d (emissions r)) (destinations dr') @
      map (supply_flow d) (materials getMaterials) @
      map (ewaste_flow d) (take 2 (ewasteDestinations getMaterials))"
    using rfl by (simp add: generateFlows_closed dr l src lit L_def)
  have wi: "intensity (water_flow d (sim_water r)) = Fin (min (L / 10) 1)"
    by (simp add: water_flow_def lit L_def)
  have ei: "\<And>dest. intensity (emissions_flow d (emissions r) dest) = Fin (min (g / 500) 1)"
    by (simp add: emissions_flow_def gr g_def)
  have edges: "map flow_edge (flows r) = spec_flows c d L g"
    unfolding fl spec_flows_def
    using electricity_edges[OF dt] supply_edges[of d] ewaste_edges[of d]
    by (simp add: comp_def m flow_edge_def data_flow_def water_flow_def emissions_flow_def
        lit gr L_def[symmetric] g_def[symmetric] wsc)
  have b1: "\<exists>x. intensity (data_flow c d) = Fin x \<and> 0 \<le> x \<and> x \<le> 1"
    by (rule exI[of _ 1]) (simp add: data_flow_def)
  have b2: "\<And>src. src \<in> set (sources (energy d)) \<Longrightarrow>
      \<exists>x. intensity (electricity_flow d src) = Fin x \<and> 0 \<le> x \<and> x \<le> 1"
    using table_share[OF dt] by (simp add: electricity_flow_def)
  have b3: "\<exists>x. intensity (water_flow d (sim_water r)) = Fin x \<and> 0 \<le> x \<and> x \<le> 1"
    using unit_interval_min[OF L0, of 10] by (simp add: wi)
  have b4: "\<And>dest. \<exists>x. intensity (emissions_flow d (emissions r) dest) = Fin x \<and> 0 \<le> x \<and> x \<le> 1"
    using unit_interval_min[OF g0, of 500] by (simp add: ei)
  have b5: "\<And>e. \<exists>x. intensity (supply_flow d e) = Fin x \<and> 0 \<le> x \<and> x \<le> 1"
    by (rule exI[of _ "0.5"]) (simp add: supply_flow_def)
  have b6: "\<And>e. \<exists>x. intensity (ewaste_flow d e) = Fin x \<and> 0 \<le> x \<and> x \<le> 1"
    by (rule exI[of _ "0.3"]) (simp add: ewaste_flow_def)
  have bounds: "\<forall>f\<in>set (flows r). \<exists>x. intensity f = Fin x \<and> 0 \<le> x \<and> x \<le> 1"
    unfolding fl using b1 b2 b3 b4 b5 b6 by (auto split: if_splits)
  have len: "length (flows r) =
       1 + length (sources (energy d)) + (if 0 < L then 1 else 0) + 2 + 4 + 2"
    unfolding fl using materials_lengths ds by simp
  show ?thesis
    using r lit gr edges bounds len unfolding L_def[symmetric] g_def[symmetric] by blast
qed

theorem generateFlows_order_and_intensities_witness:
  "\<exists>r. runSimulation phoenix_image_arizona_15 = Inr r \<and>
     map (\<lambda>f. (flow_type f, intensity f)) (flows r) =
       [(''data'', Fin 1),
        (''electricity'', Fin 0.28), (''electricity'', Fin 0.1), (''electricity'', Fin 0.15),
        (''water'', Fin 0.16443),
        (''emissions'', Fin 0.375144), (''emissions'', Fin 0.375144),
        (''materials'', Fin 0.5), (''materials'', Fin 0.5), (''materials'', Fin 0.5),
        (''materials'', Fin 0.5),
        (''materials'', Fin 0.3), (''materials'', Fin 0.3)]"
proof -
  let ?s = phoenix_image_arizona_15
  obtain c where c: "currentCity ?s = Obj c"
    using scenario_city by (auto simp: scenario_state)
  have wt: "(''image'', image_workload) \<in> set WORKLOADS" by (simp add: WORKLOADS_def)
  have dt: "(''arizona'', arizona) \<in> set DATACENTERS" by (simp add: DATACENTERS_def)
  have w: "currentWorkload ?s = Obj image_workload" and d: "currentDatacenter ?s = Obj arizona"
    and h: "0 \<le> currentHour ?s" "currentHour ?s < 24"
    by (simp_all add: scenario_state)
  obtain r L g where r: "runSimulation ?s = Inr r"
    and L: "liters (sim_water r) = Fin L" and g: "grams (emissions r) = Fin g"
    and e: "map flow_edge (flows r) = spec_flows c arizona L g"
    using generateFlows_order_and_intensities[OF c wt w dt d h] by blast
  obtain r' where "runSimulation ?s = Inr r'"
    and wa: "calculateWater ?s = Inr (Some (sim_water r'))"
    and em: "calculateEmissions ?s = Inr (Some (emissions r'))"
    using runSimulation_configured[OF c _ d dt] w by auto
  with r have rr: "r' = r" by simp
  have "\<exists>wa. calculateWater ?s = Inr (Some wa) \<and> liters wa = Fin 1.6443"
    by (simp add: scenario_state calculateWater_def calculateElectricity_def Let_def
        switch_baseKwh_def session_field_def tonum_def nth_opt_def image_workload_def
        arizona_def demandByHour_def waterUsageByHour_def)
  then have Lv: "L = 1.6443" using wa L rr by auto
  have "\<exists>em. calculateEmissions ?s = Inr (Some em) \<and> grams em = Fin 187.572"
    by (simp add: scenario_state calculateEmissions_def calculateElectricity_def Let_def
        switch_baseKwh_def session_field_def tonum_def nth_opt_def image_workload_def
        arizona_def demandByHour_def carbonIntensityByHour_def)
  then have gv: "g = 187.572" using em g rr by auto
  have "map (\<lambda>f. (flow_type f, intensity f)) (flows r) =
        map (\<lambda>e. (fst e, snd (snd (snd (snd e))))) (map flow_edge (flows r))"
    by (simp add: flow_edge_def comp_def)
  also have "\<dots> = map (\<lambda>e. (fst e, snd (snd (snd (snd e))))) (spec_flows c arizona 1.6443 187.572)"
    by (simp only: e Lv gv)
  also have "\<dots> = [(''data'', Fin 1),
        (''electricity'', Fin 0.28), (''electricity'', Fin 0.1), (''electricity'', Fin 0.15),
        (''water'', Fin 0.16443),
        (''emissions'', Fin 0.375144), (''emissions'', Fin 0.375144),
        (''materials'', Fin 0.5), (''materials'', Fin 0.5), (''materials'', Fin 0.5),
        (''materials'', Fin 0.5),
        (''materials'', Fin 0.3), (''materials'', Fin 0.3)]"
    by (simp add: spec_flows_def arizona_def EMISSIONS_DRIFT_def curated_materials_def
        MATERIALS_def EWASTE_def)
  finally have m: "map (\<lambda>f. (flow_type f, intensity f)) (flows r) =
       [(''data'', Fin 1),
        (''electricity'', Fin 0.28), (''electricity'', Fin 0.1), (''electricity'', Fin 0.15),
        (''water'', Fin 0.16443),
        (''emissions'', Fin 0.375144), (''emissions'', Fin 0.375144),
        (''materials'', Fin 0.5), (''materials'', Fin 0.5), (''materials'', Fin 0.5),
        (''materials'', Fin 0.5),
        (''materials'', Fin 0.3), (''materials'', Fin 0.3)]" .
  show ?thesis
    by (rule exI[of _ r]) (rule conjI[OF r m])
qed

section \<open>Comparing two datacenters\<close>

text \<open>
  Claim C5: whenever \<^verbatim>\<open>compareDatacenters\<close> returns, the configured datacenter (indeed
  the whole configuration) is as it was before the call; and it does return from every
  configuration in which the city, the workload and the datacenter are set to objects,
  for every two identifiers of the datacenter table.
\<close>

theorem compareDatacenters_restores:
  "(compareDatacenters idA idB s = (Inr r, s') \<longrightarrow>
      currentDatacenter s' = currentDatacenter s \<and> s' = s) \<and>
   (currentCity s = Obj c \<and> currentWorkload s = Obj w \<and> currentDatacenter s = Obj d \<and>
    idA \<in> fst ` set DATACENTERS \<and> idB \<in> fst ` set DATACENTERS \<longrightarrow>
      (\<exists>r s'. compareDatacenters idA idB s = (Inr r, s') \<and>
         currentDatacenter s' = currentDatacenter s \<and> s' = s))"
proof (intro conjI impI)
  assume "compareDatacenters idA idB s = (Inr r, s')"
  then have "s' = s"
    by (auto simp: compareDatacenters_def Let_def split: sum.splits)
  then show "currentDatacenter s' = currentDatacenter s" and "s' = s" by simp_all
next
  assume a: "currentCity s = Obj c \<and> currentWorkload s = Obj w \<and> currentDatacenter s = Obj d \<and>
    idA \<in> fst ` set DATACENTERS \<and> idB \<in> fst ` set DATACENTERS"
  obtain dA where dA: "lookup DATACENTERS idA = Obj dA" "(idA, dA) \<in> set DATACENTERS"
    using lookup_known a by blast
  obtain dB where dB: "lookup DATACENTERS idB = Obj dB" "(idB, dB) \<in> set DATACENTERS"
    using lookup_known a by blast
  obtain r1 where r1: "runSimulation (s\<lparr>currentDatacenter := Obj dA\<rparr>) = Inr r1"
    using runSimulation_configured[of "s\<lparr>currentDatacenter := Obj dA\<rparr>" c dA idA] a dA
    by auto
  obtain r2 where r2: "runSimulation (s\<lparr>currentDatacenter := Obj dB\<rparr>) = Inr r2"
    using runSimulation_configured[of "s\<lparr>currentDatacenter := Obj dB\<rparr>" c dB idB] a dB
    by auto
  show "\<exists>r s'. compareDatacenters idA idB s = (Inr r, s') \<and>
         currentDatacenter s' = currentDatacenter s \<and> s' = s"
    using dA dB r1 r2 by (simp add: compareDatacenters_def Let_def)
qed

theorem compareDatacenters_restores_witness:
  "\<exists>r. compareDatacenters ''finland'' ''ireland'' phoenix_image_arizona_15
         = (Inr r, phoenix_image_arizona_15) \<and>
       currentDatacenter phoenix_image_arizona_15 = Obj arizona"
proof -
  obtain c where c: "currentCity phoenix_image_arizona_15 = Obj c"
    using scenario_city by (auto simp: scenario_state)
  have h: "currentWorkload phoenix_image_arizona_15 = Obj image_workload"
    "currentDatacenter phoenix_image_arizona_15 = Obj arizona"
    "''finland'' \<in> fst ` set DATACENTERS" "''ireland'' \<in> fst ` set DATACENTERS"
    by (simp_all add: scenario_state DATACENTERS_def)
  from compareDatacenters_restores[where s = phoenix_image_arizona_15 and c = c
      and w = image_workload and d = arizona and idA = "''finland''" and idB = "''ireland''",
      THEN conjunct2] c h
  show ?thesis by auto
qed

text \<open>
  Claim C6 says that the percentage difference of a metric is defined explicitly when
  the second datacenter's value is zero. The engine divides without a test: comparing
  Arizona with Finland, whose water use is 0, gives the water difference
  \<^verbatim>\<open>Infinity\<close>, and comparing Finland with itself gives \<^verbatim>\<open>NaN\<close>.
\<close>

theorem compareDatacenters_divides_by_zero:
  "(\<exists>r s'. compareDatacenters ''arizona'' ''finland'' phoenix_image_arizona_15 = (Inr r, s') \<and>
       liters (sim_water (dc1 r)) = Fin 1.6443 \<and> liters (sim_water (dc2 r)) = Fin 0 \<and>
       waterDifference (comparison r) = PosInf) \<and>
   (\<exists>r s'. compareDatacenters ''finland'' ''finland'' phoenix_image_arizona_15 = (Inr r, s') \<and>
       liters (sim_water (dc1 r)) = Fin 0 \<and> liters (sim_water (dc2 r)) = Fin 0 \<and>
       waterDifference (comparison r) = NaN)"
proof -
  let ?s = phoenix_image_arizona_15
  obtain c where c: "currentCity ?s = Obj c"
    using scenario_city by (auto simp: scenario_state)
  have lA: "lookup DATACENTERS ''arizona'' = Obj arizona"
    and lF: "lookup DATACENTERS ''finland'' = Obj finland"
    by (simp_all add: lookup_def DATACENTERS_def)
  have tA: "(''arizona'', arizona) \<in> set DATACENTERS"
    and tF: "(''finland'', finland) \<in> set DATACENTERS"
    by (simp_all add: DATACENTERS_def)
  let ?sA = "?s\<lparr>currentDatacenter := Obj arizona\<rparr>"
  let ?sF = "?s\<lparr>currentDatacenter := Obj finland\<rparr>"
  obtain rA where rA: "runSimulation ?sA = Inr rA"
    and wA: "calculateWater ?sA = Inr (Some (sim_water rA))"
    using runSimulation_configured[of ?sA c arizona, OF _ _ _ tA] c
    by (auto simp: scenario_state)
  obtain rF where rF: "runSimulation ?sF = Inr rF"
    and wF: "calculateWater ?sF = Inr (Some (sim_water rF))"
    using runSimulation_configured[of ?sF c finland, OF _ _ _ tF] c
    by (auto simp: scenario_state)
  have "\<exists>wa. calculateWater ?sA = Inr (Some wa) \<and> liters wa = Fin 1.6443"
    by (simp add: scenario_state calculateWater_def calculateElectricity_def Let_def
        switch_baseKwh_def session_field_def tonum_def nth_opt_def image_workload_def
        arizona_def demandByHour_def waterUsageByHour_def)
  then have litA: "liters (sim_water rA) = Fin 1.6443"
    using wA by auto
  have "\<exists>wa. calculateWater ?sF = Inr (Some wa) \<and> liters wa = Fin 0"
    by (simp add: scenario_state calculateWater_def calculateElectricity_def Let_def
        switch_baseKwh_def session_field_def tonum_def nth_opt_def image_workload_def
        finland_def demandByHour_def waterUsageByHour_def)
  then have litF: "liters (sim_water rF) = Fin 0"
    using wF by auto
  have "compareDatacenters ''arizona'' ''finland'' ?s = (Inr \<lparr>dc1 = rA, dc2 = rF,
          comparison =
            \<lparr>waterDifference =
               percent_difference (liters (sim_water rA)) (liters (sim_water rF)),
             emissionsDifference =
               percent_difference (grams (emissions rA)) (grams (emissions rF)),
             electricityDifference =
               percent_difference (withOverhead (electricity rA))
                 (withOverhead (electricity rF))\<rparr>\<rparr>, ?s)"
    by (rule compareDatacenters_returns) (simp_all add: lA lF rA rF)
  moreover have "compareDatacenters ''finland'' ''finland'' ?s = (Inr \<lparr>dc1 = rF, dc2 = rF,
          comparison =
            \<lparr>waterDifference =
               percent_difference (liters (sim_water rF)) (liters (sim_water rF)),
             emissionsDifference =
               percent_difference (grams (emissions rF)) (grams (emissions rF)),
             electricityDifference =
               percent_difference (withOverhead (electricity rF))
                 (withOverhead (electricity rF))\<rparr>\<rparr>, ?s)"
    by (rule compareDatacenters_returns) (simp_all add: lF rF)
  ultimately show ?thesis
    by (simp add: litA litF percent_difference_zero)
qed

theorem compareDatacenters_divides_by_zero_witness:
  "\<exists>r s'. compareDatacenters ''arizona'' ''finland'' phoenix_image_arizona_15 = (Inr r, s') \<and>
       waterDifference (comparison r) = PosInf"
  using compareDatacenters_divides_by_zero by blast

text \<open>
  Claim C10: when one of the two runs inside \<^verbatim>\<open>compareDatacenters\<close> raises, the
  exception leaves the method before the restoring assignment: the engine keeps as
  its datacenter the result of the lookup of the first identifier (if the first run
  raised) or of the second (if the second did), whatever the datacenter was before the
  call. The first run raises whenever the city or the workload is unset or the first
  identifier is not a key of the table.
\<close>

theorem compareDatacenters_not_exception_safe:
  "(runSimulation (s\<lparr>currentDatacenter := lookup DATACENTERS idA\<rparr>) = Inl e \<longrightarrow>
      compareDatacenters idA idB s = (Inl e, s\<lparr>currentDatacenter := lookup DATACENTERS idA\<rparr>)) \<and>
   (runSimulation (s\<lparr>currentDatacenter := lookup DATACENTERS idA\<rparr>) = Inr r \<and>
    runSimulation (s\<lparr>currentDatacenter := lookup DATACENTERS idB\<rparr>) = Inl e \<longrightarrow>
      compareDatacenters idA idB s = (Inl e, s\<lparr>currentDatacenter := lookup DATACENTERS idB\<rparr>)) \<and>
   (\<not> truthy (currentCity s) \<or> \<not> truthy (currentWorkload s) \<or> idA \<notin> fst ` set DATACENTERS \<longrightarrow>
      (\<exists>e'. runSimulation (s\<lparr>currentDatacenter := lookup DATACENTERS idA\<rparr>) = Inl e'))"
proof (intro conjI impI)
  assume "runSimulation (s\<lparr>currentDatacenter := lookup DATACENTERS idA\<rparr>) = Inl e"
  then show "compareDatacenters idA idB s
      = (Inl e, s\<lparr>currentDatacenter := lookup DATACENTERS idA\<rparr>)"
    by (simp add: compareDatacenters_def Let_def)
next
  assume "runSimulation (s\<lparr>currentDatacenter := lookup DATACENTERS idA\<rparr>) = Inr r \<and>
    runSimulation (s\<lparr>currentDatacenter := lookup DATACENTERS idB\<rparr>) = Inl e"
  then show "compareDatacenters idA idB s
      = (Inl e, s\<lparr>currentDatacenter := lookup DATACENTERS idB\<rparr>)"
    by (simp add: compareDatacenters_def Let_def)
next
  assume a: "\<not> truthy (currentCity s) \<or> \<not> truthy (currentWorkload s) \<or>
      idA \<notin> fst ` set DATACENTERS"
  show "\<exists>e'. runSimulation (s\<lparr>currentDatacenter := lookup DATACENTERS idA\<rparr>) = Inl e'"
  proof (cases "idA \<in> fst ` set DATACENTERS")
    case True
    with a show ?thesis by (auto simp: runSimulation_def)
  next
    case False
    then have "\<forall>d. lookup DATACENTERS idA \<noteq> Obj d"
      by (simp add: lookup_unknown)
    then show ?thesis
      by (intro runSimulation_not_object) simp
  qed
qed

theorem compareDatacenters_not_exception_safe_witness:
  "compareDatacenters ''atlantis'' ''finland'' phoenix_image_arizona_15
     = (Inl (Error ''Simulation not fully configured''),
        phoenix_image_arizona_15\<lparr>currentDatacenter := Undefined\<rparr>) \<and>
   compareDatacenters ''finland'' ''atlantis'' phoenix_image_arizona_15
     = (Inl (Error ''Simulation not fully configured''),
        phoenix_image_arizona_15\<lparr>currentDatacenter := Undefined\<rparr>) \<and>
   currentDatacenter phoenix_image_arizona_15 = Obj arizona"
proof -
  let ?s = phoenix_image_arizona_15
  obtain c where c: "currentCity ?s = Obj c"
    using scenario_city by (auto simp: scenario_state)
  have u: "lookup DATACENTERS ''atlantis'' = Undefined"
    and f: "lookup DATACENTERS ''finland'' = Obj finland"
    by (simp_all add: lookup_def DATACENTERS_def object_prototype_names_def)
  have e: "runSimulation (?s\<lparr>currentDatacenter := lookup DATACENTERS ''atlantis''\<rparr>)
      = Inl (Error ''Simulation not fully configured'')"
    by (simp add: u runSimulation_def)
  have "(''finland'', finland) \<in> set DATACENTERS" by (simp add: DATACENTERS_def)
  then obtain r where r: "runSimulation (?s\<lparr>currentDatacenter := lookup DATACENTERS ''finland''\<rparr>)
      = Inr r"
    using runSimulation_configured[of "?s\<lparr>currentDatacenter := Obj finland\<rparr>" c finland] c
    by (auto simp: f scenario_state)
  show ?thesis
    using compareDatacenters_not_exception_safe[where s = ?s and idA = "''atlantis''"
        and e = "Error ''Simulation not fully configured''" and idB = "''finland''" and r = r]
      compareDatacenters_not_exception_safe[where s = ?s and idA = "''finland''"
        and e = "Error ''Simulation not fully configured''" and idB = "''atlantis''" and r = r]
      e r u
    by (simp add: scenario_state)
qed

end
